theory Spec2Isabelle
  imports Main
begin

section \<open>Values, errors and the account-update record\<close>

text \<open>
  A shallow embedding of \<^verbatim>\<open>src/lib/zkapp.ts\<close>. Field elements are only
  hashed and compared, so they are integers here. Keys are natural numbers. A JavaScript
  argument value is \<^verbatim>\<open>undefined\<close>, a boolean, or a circuit value, which is
  represented by the list of its field elements.
\<close>

type_synonym Field = int
type_synonym PublicKey = nat
type_synonym PrivateKey = nat

datatype jsval = JUndefined | JBool bool | JFields "Field list"

text \<open>
  Every \<^verbatim>\<open>throw\<close> of the source is a constructor. Where the source throws a plain
  \<^verbatim>\<open>Error(message)\<close> the constructor carries the name the specification gives to that
  failure.
\<close>

datatype error =
    ReservedPropName string       \<comment> \<open>zkapp.ts line 55\<close>
  | NotAFunction string           \<comment> \<open>line 58\<close>
  | InvalidArgument nat string    \<comment> \<open>line 75\<close>
  | NotCompiled                   \<comment> \<open>line 277, "no provers found"\<close>
  | MethodNotFound string         \<comment> \<open>lines 282 and 320\<close>
  | MissingFeePayerKey            \<comment> \<open>line 475\<close>
  | MissingFeePayerArguments      \<comment> \<open>line 505\<close>
  | StatementMismatch             \<comment> \<open>a failed \<^verbatim>\<open>assertEquals\<close>, lines 173, 174, 192\<close>
  | TypeError                     \<comment> \<open>the runtime's: property or call on \<^verbatim>\<open>undefined\<close>\<close>
  | NoActiveContext               \<comment> \<open>\<^verbatim>\<open>getContext()\<close> outside any activation\<close>
  | TransactionInProgress         \<comment> \<open>a session opened inside a session\<close>
  | UInt64Overflow                \<comment> \<open>\<^verbatim>\<open>UInt64.add\<close> out of range\<close>
  | Thrown string                 \<comment> \<open>anything a method body or a collaborator throws\<close>

text \<open>
  The authorization of an account update: the object \<^verbatim>\<open>{}\<close>, \<^verbatim>\<open>{signature}\<close>,
  \<^verbatim>\<open>{proof}\<close>, or the lazy proof of lines 116 to 121, which captures the method, the
  arguments and the class. Functions and classes are captured by reference; the reference
  is their name.
\<close>

datatype authorization =
    NoAuthorization
  | Signature "PrivateKey option"
  | Proof string
  | LazyProof string "jsval list" string

datatype Permissions = PermissionsDefault | PermissionsCustom nat

record Body =
  publicKey :: PublicKey
  balanceChange :: int
  update_verificationKey :: "(string \<times> Field) option"
  update_permissions :: "Permissions option"
  noncePrecondition :: "nat option"

record Party =
  body :: Body
  authorization :: authorization
  isSelf :: bool

text \<open>
  Modelled from the spec: \<^verbatim>\<open>Body.keepAll\<close> and the \<^verbatim>\<open>Party\<close> constructor of
  \<^verbatim>\<open>./party\<close> (\<open>createDefaultUpdate(address)\<close>): an update for the address that
  changes nothing and carries no authorization.
\<close>

definition Body_keepAll :: "PublicKey \<Rightarrow> Body" where
  "Body_keepAll address =
     \<lparr>publicKey = address, balanceChange = 0, update_verificationKey = None,
      update_permissions = None, noncePrecondition = None\<rparr>"

definition Party_new :: "Body \<Rightarrow> authorization \<Rightarrow> bool \<Rightarrow> Party" where
  "Party_new b auth self_flag = \<lparr>body = b, authorization = auth, isSelf = self_flag\<rparr>"

section \<open>The store: parties, contract instances, ambient context, session\<close>

text \<open>
  Parties and contract instances are objects that several places hold and mutate, so both
  live in a store and are passed by reference. \<^verbatim>\<open>NaN\<close> is a value of its own: it is
  equal to no number.
\<close>

datatype jsnum = NaN | Num nat

record ExecutionState =
  transactionId :: jsnum
  partyIndex :: jsnum
  party :: nat

record SmartContract =
  address :: PublicKey
  executionState_memo :: "ExecutionState option"   \<comment> \<open>\<^verbatim>\<open>_executionState\<close>\<close>

record MainContext =
  ctx_self :: nat
  ctx_witnesses :: "jsval list option"
  ctx_inCompile :: bool
  ctx_inProver :: bool

record CurrentTransaction =
  parties :: "nat list"
  nextPartyIndex :: nat

record world =
  heap :: "nat \<Rightarrow> Party"
  nextRef :: nat
  instances :: "nat \<Rightarrow> SmartContract"
  nextInstance :: nat
  mainContext :: "MainContext option"
  currentTransaction :: "CurrentTransaction option"
  nextTransactionId :: nat

type_synonym 'a M = "world \<Rightarrow> (error + 'a) \<times> world"

definition alloc_party :: "Party \<Rightarrow> world \<Rightarrow> nat \<times> world" where
  "alloc_party p w =
     (nextRef w, w\<lparr>heap := (heap w)(nextRef w := p), nextRef := Suc (nextRef w)\<rparr>)"

definition update_party :: "nat \<Rightarrow> (Party \<Rightarrow> Party) \<Rightarrow> world \<Rightarrow> world" where
  "update_party r f w = w\<lparr>heap := (heap w)(r := f (heap w r))\<rparr>"

text \<open>Lines 425 to 428.\<close>

definition selfParty :: "PublicKey \<Rightarrow> world \<Rightarrow> nat \<times> world" where
  "selfParty addr w = alloc_party (Party_new (Body_keepAll addr) NoAuthorization True) w"

text \<open>
  Lines 367 to 377, the tail of \<^verbatim>\<open>executionState\<close>: a new party for the instance's
  address is pushed on the session, the session's index advances, and the result is
  memoized on the instance under the current transaction identifier.
\<close>

definition new_executionState :: "nat \<Rightarrow> CurrentTransaction \<Rightarrow> world \<Rightarrow> ExecutionState \<times> world" where
  "new_executionState this tx w =
     (let id = nextTransactionId w;
          index = nextPartyIndex tx;
          tx1 = tx\<lparr>nextPartyIndex := Suc (nextPartyIndex tx)\<rparr>
      in case selfParty (address (instances w this)) w of
           (p, w1) \<Rightarrow>
             (let tx2 = tx1\<lparr>parties := parties tx1 @ [p]\<rparr>;
                  es = \<lparr>transactionId = Num id, partyIndex = Num index, party = p\<rparr>
              in (es, w1\<lparr>currentTransaction := Some tx2,
                         instances := (instances w1)
                           (this := (instances w1 this)\<lparr>executionState_memo := Some es\<rparr>)\<rparr>)))"

text \<open>
  Lines 341 to 378. The three cases in the source's order: an ambient context, no session,
  a session (memo hit, or a new party pushed on the session and memoized on the instance).
\<close>

definition executionState :: "nat \<Rightarrow> world \<Rightarrow> ExecutionState \<times> world" where
  "executionState this w =
     (case mainContext w of
        Some ctx \<Rightarrow> (\<lparr>transactionId = Num 0, partyIndex = Num 0, party = ctx_self ctx\<rparr>, w)
      | None \<Rightarrow>
        (case currentTransaction w of
           None \<Rightarrow>
             (case selfParty (address (instances w this)) w of
                (p, w1) \<Rightarrow> (\<lparr>transactionId = NaN, partyIndex = NaN, party = p\<rparr>, w1))
         | Some tx \<Rightarrow>
             (case executionState_memo (instances w this) of
                Some es \<Rightarrow>
                  if transactionId es = Num (nextTransactionId w) then (es, w)
                  else new_executionState this tx w
              | None \<Rightarrow> new_executionState this tx w)))"

text \<open>Line 380: the getter \<^verbatim>\<open>self\<close>.\<close>

definition self :: "nat \<Rightarrow> world \<Rightarrow> nat \<times> world" where
  "self this w = (case executionState this w of (es, w1) \<Rightarrow> (party es, w1))"

section \<open>Transactions\<close>

text \<open>
  A transaction (the type \<^verbatim>\<open>Parties\<close> of \<^verbatim>\<open>./party\<close>, destructured on line 572) is
  a fee payer and the list of the other parties, which are held by reference. Of the fee
  payer only the members that \<^verbatim>\<open>addFeePayer\<close> writes are kept. The serialized
  transaction holds the parties as they are when it is written.
\<close>

record FeePayer =
  fp_publicKey :: "PublicKey option"
  fp_nonce :: nat
  fp_fee :: nat
  fp_signedBy :: "PrivateKey option"

record Parties =
  feePayer :: FeePayer
  otherParties :: "nat list"

record TransactionJson =
  json_feePayer :: FeePayer
  json_otherParties :: "Party list"

section \<open>Collaborators outside the file\<close>

text \<open>
  A statement (line 154) and a witness type: an object that may have the three members
  \<^verbatim>\<open>isAsFields\<close> looks for, with the number of field elements of its values.
\<close>

record Statement =
  transaction :: Field
  atParty :: Field

record AsFieldElements =
  props :: "string list"
  sizeInFields :: nat

text \<open>
  The functions the file imports from \<^verbatim>\<open>../snarky\<close>, \<^verbatim>\<open>./party\<close>,
  \<^verbatim>\<open>./mina\<close>, \<^verbatim>\<open>./signature\<close> and \<^verbatim>\<open>./precondition\<close> and only calls are
  parameters of the model, collected in one record: the two hashes, the transaction
  statement of a list of updates, witness allocation, the precondition check and its
  cache hook, the account creation fee, the public key of a private key, the nonce of an
  account, the signature that completes an update, and the proof bytes of the proof
  system.
\<close>

record externals =
  Party_hash :: "Party \<Rightarrow> Field"
  hashTransactionChecked :: "Field \<Rightarrow> Field"
  transactionStatement :: "TransactionJson \<Rightarrow> nat \<Rightarrow> Statement"
  Circuit_witness :: "AsFieldElements \<Rightarrow> jsval \<Rightarrow> error + jsval"
  assertPreconditionInvariants :: "Party \<Rightarrow> error + unit"
  cleanPreconditionsCache :: "Party \<Rightarrow> Party"
  accountCreationFee :: nat
  toPublicKey :: "PrivateKey \<Rightarrow> PublicKey"
  getAccountNonce :: "PublicKey \<Rightarrow> error + nat"
  addMissingSignature :: "Party \<Rightarrow> authorization"
  Pickles_proof :: "string \<Rightarrow> Statement \<Rightarrow> string"

section \<open>Sequencing of calls that may throw\<close>

definition returnM :: "'a \<Rightarrow> 'a M" where
  "returnM x w = (Inr x, w)"

definition throwM :: "error \<Rightarrow> 'a M" where
  "throwM e w = (Inl e, w)"

definition bindM :: "'a M \<Rightarrow> ('a \<Rightarrow> 'b M) \<Rightarrow> 'b M" where
  "bindM m f w = (case m w of (Inl e, w1) \<Rightarrow> (Inl e, w1) | (Inr x, w1) \<Rightarrow> f x w1)"

definition liftS :: "(world \<Rightarrow> 'a \<times> world) \<Rightarrow> 'a M" where
  "liftS f w = (case f w of (x, w1) \<Rightarrow> (Inr x, w1))"

definition liftE :: "error + 'a \<Rightarrow> 'a M" where
  "liftE r w = (r, w)"

definition getsM :: "(world \<Rightarrow> 'a) \<Rightarrow> 'a M" where
  "getsM f w = (Inr (f w), w)"

definition modifyM :: "(world \<Rightarrow> world) \<Rightarrow> unit M" where
  "modifyM f w = (Inr (), f w)"

section \<open>The dispatch wrapper\<close>

text \<open>
  A function object: its identity (what a lazy proof captures) and what calling it with
  \<^verbatim>\<open>this\<close> and an argument list does.
\<close>

record Function =
  fname :: string
  fapply :: "nat \<Rightarrow> jsval list \<Rightarrow> jsval M"

text \<open>\<^verbatim>\<open>xs[i]\<close>: \<^verbatim>\<open>undefined\<close> out of range.\<close>

definition js_index :: "jsval list \<Rightarrow> nat \<Rightarrow> jsval" where
  "js_index xs i = (if i < length xs then xs ! i else JUndefined)"

text \<open>
  Modelled from the spec: \<^verbatim>\<open>inCompile\<close> of \<^verbatim>\<open>./global-context\<close>, the
  \<open>isCompiling\<close> flag of the active Execution Context, false when there is none.
\<close>

definition inCompile :: "world \<Rightarrow> bool" where
  "inCompile w = (case mainContext w of None \<Rightarrow> False | Some ctx \<Rightarrow> ctx_inCompile ctx)"

text \<open>The own keys of an authorization object, for the \<^verbatim>\<open>in\<close> tests of line 115.\<close>

fun auth_keys :: "authorization \<Rightarrow> string list" where
  "auth_keys NoAuthorization = []"
| "auth_keys (Signature k) = [''signature'']"
| "auth_keys (Proof p) = [''proof'']"
| "auth_keys (LazyProof m a c) = [''kind'', ''method'', ''args'', ''ZkappClass'']"

text \<open>Lines 93 to 127.\<close>

definition wrapMethod ::
  "externals \<Rightarrow> Function \<Rightarrow> nat \<Rightarrow> string \<Rightarrow> nat \<Rightarrow> jsval list \<Rightarrow> jsval M" where
  "wrapMethod X method argsLength ZkappClass this args w =
     (let actualArgs = take argsLength args;
          shouldCallDirectly = js_index args argsLength
      in if currentTransaction w = None \<or> shouldCallDirectly = JBool True then
           if inCompile w then
             bindM (fapply method this actualArgs) (\<lambda>result.
             bindM (liftS (self this)) (\<lambda>p.
             bindM (\<lambda>w1. (assertPreconditionInvariants X (heap w1 p), w1)) (\<lambda>_.
             returnM result))) w
           else fapply method this actualArgs w
         else
           bindM (liftS (self this)) (\<lambda>p.
           bindM (getsM (\<lambda>w1. authorization (heap w1 p))) (\<lambda>auth.
           bindM
             (if \<not> (''kind'' \<in> set (auth_keys auth) \<or> ''proof'' \<in> set (auth_keys auth)
                    \<or> ''signature'' \<in> set (auth_keys auth))
              then bindM (liftS (self this)) (\<lambda>q.
                   modifyM (update_party q
                     (\<lambda>pt. pt\<lparr>authorization := LazyProof (fname method) actualArgs ZkappClass\<rparr>)))
              else returnM ())
             (\<lambda>_. fapply method this actualArgs))) w)"

section \<open>The statement binder\<close>

text \<open>
  Modelled from the spec: \<^verbatim>\<open>Field.assertEquals\<close> of \<^verbatim>\<open>../snarky\<close>, the
  equality assertion that is a constraint inside the prover and a comparison outside:
  it passes on equal field elements and fails on different ones.
\<close>

definition assertEquals :: "Field \<Rightarrow> Field \<Rightarrow> error + unit" where
  "assertEquals x y = (if x = y then Inr () else Inl StatementMismatch)"

text \<open>Lines 159 to 164. The tail is not used.\<close>

definition toStatement :: "externals \<Rightarrow> Party \<Rightarrow> Field \<Rightarrow> Statement" where
  "toStatement X slf tail =
     (let atParty' = Party_hash X slf;
          transaction' = hashTransactionChecked X atParty'
      in \<lparr>transaction = transaction', atParty = atParty'\<rparr>)"

text \<open>Lines 166 to 175.\<close>

definition checkStatement :: "externals \<Rightarrow> Statement \<Rightarrow> Party \<Rightarrow> Field \<Rightarrow> error + unit" where
  "checkStatement X statement slf tail =
     (let otherStatement = toStatement X slf tail
      in case assertEquals (atParty statement) (atParty otherStatement) of
           Inl e \<Rightarrow> Inl e
         | Inr _ \<Rightarrow> assertEquals (transaction statement) (transaction otherStatement))"

section \<open>The circuit body of a rule\<close>

text \<open>
  Modelled from the spec: \<^verbatim>\<open>getContext\<close> of \<^verbatim>\<open>./global-context\<close>
  (\<open>current()\<close>): the active context, or a failure outside any activation.
\<close>

definition getContext :: "MainContext M" where
  "getContext w = (case mainContext w of None \<Rightarrow> (Inl NoActiveContext, w) | Some ctx \<Rightarrow> (Inr ctx, w))"

text \<open>
  Lines 442 to 447. A circuit value is its list of field elements, so
  \<^verbatim>\<open>typ.ofFields\<close> of a list of zeros is that list.
\<close>

definition emptyWitness :: "externals \<Rightarrow> AsFieldElements \<Rightarrow> error + jsval" where
  "emptyWitness X typ = Circuit_witness X typ (JFields (replicate (sizeInFields typ) 0))"

text \<open>
  Lines 184 to 188: \<^verbatim>\<open>witnessTypes.map\<close> with the index. An array, also an empty
  one, is truthy; only \<^verbatim>\<open>undefined\<close> selects \<^verbatim>\<open>emptyWitness\<close>. The first
  allocation that throws ends the map.
\<close>

fun map_witnesses ::
  "externals \<Rightarrow> jsval list option \<Rightarrow> AsFieldElements list \<Rightarrow> nat \<Rightarrow> error + jsval list" where
  "map_witnesses X witnesses [] i = Inr []"
| "map_witnesses X witnesses (typ # types) i =
     (case (case witnesses of
              Some vs \<Rightarrow> Circuit_witness X typ (js_index vs i)
            | None \<Rightarrow> emptyWitness X typ) of
        Inl e \<Rightarrow> Inl e
      | Inr v \<Rightarrow>
          (case map_witnesses X witnesses types (Suc i) of
             Inl e \<Rightarrow> Inl e
           | Inr vs \<Rightarrow> Inr (v # vs)))"

text \<open>
  Lines 182 to 195, the function \<^verbatim>\<open>main\<close> of a rule. Line 192 compares the
  statement's transaction with itself; the call of \<^verbatim>\<open>checkStatement\<close> on line 193 is
  commented out in the source and therefore absent here.
\<close>

definition main ::
  "externals \<Rightarrow> (jsval list \<Rightarrow> jsval M) \<Rightarrow> AsFieldElements list \<Rightarrow> Statement \<Rightarrow> unit M" where
  "main X func witnessTypes statement =
     bindM getContext (\<lambda>ctx.
     bindM (liftE (map_witnesses X (ctx_witnesses ctx) witnessTypes 0)) (\<lambda>witnesses.
     bindM (func witnesses) (\<lambda>_.
     bindM (liftE (assertEquals (transaction statement) (transaction statement))) (\<lambda>_.
     modifyM (update_party (ctx_self ctx) (cleanPreconditionsCache X))))))"

text \<open>Lines 177 to 198.\<close>

definition picklesRuleFromFunction ::
  "externals \<Rightarrow> string \<Rightarrow> (jsval list \<Rightarrow> jsval M) \<Rightarrow> AsFieldElements list
     \<Rightarrow> nat \<times> string \<times> (Statement \<Rightarrow> unit M)" where
  "picklesRuleFromFunction X name func witnessTypes = (0, name, main X func witnessTypes)"

section \<open>Contract classes and method registration\<close>

text \<open>
  Lines 129 to 135: a method descriptor. An entry of the argument table is the pair of
  its \<^verbatim>\<open>type\<close> string and its \<^verbatim>\<open>index\<close>. The optional member
  \<^verbatim>\<open>witnessValues\<close> is neither written nor read in the file and is left out.
\<close>

record methodEntry =
  methodName :: string
  witnessArgs :: "AsFieldElements list"
  proofArgs :: "AsFieldElements list"
  args :: "(string \<times> nat) list"

type_synonym Prover = "Statement \<Rightarrow> string M"

datatype property = PFunction Function | PValue jsval

text \<open>
  A contract class: its name, the three static members of lines 214 to 216
  (\<^verbatim>\<open>undefined\<close> until set), the own properties of its prototype, what the prototype
  chain above it provides, and the \<^verbatim>\<open>design:paramtypes\<close> metadata of its methods. A
  parameter type in the metadata may be \<^verbatim>\<open>undefined\<close>.
\<close>

record ZkappClass =
  className :: string
  static_methods :: "methodEntry list option"
  static_provers :: "Prover list option"
  static_verificationKey :: "(string \<times> Field) option"
  prototype :: "string \<Rightarrow> property option"
  inherited :: "string \<Rightarrow> property option"
  paramtypes :: "string \<Rightarrow> AsFieldElements option list option"

text \<open>Line 36.\<close>

definition reservedPropNames :: "string list" where
  "reservedPropNames = [''_methods'', ''_'']"

text \<open>Lines 137 to 141.\<close>

definition isAsFields :: "AsFieldElements option \<Rightarrow> bool" where
  "isAsFields typ =
     (case typ of
        None \<Rightarrow> False
      | Some t \<Rightarrow> list_all (\<lambda>s. s \<in> set (props t)) [''toFields'', ''ofFields'', ''sizeInFields''])"

text \<open>Lines 142 to 144.\<close>

definition isProof :: "AsFieldElements option \<Rightarrow> bool" where
  "isProof typ = False"

text \<open>\<^verbatim>\<open>target[methodName]\<close>: the own property, else the inherited one.\<close>

definition get_property :: "ZkappClass \<Rightarrow> string \<Rightarrow> property option" where
  "get_property cls key =
     (case prototype cls key of Some p \<Rightarrow> Some p | None \<Rightarrow> inherited cls key)"

text \<open>
  Lines 63 to 79: the loop over the parameter types, with the three arrays it fills. The
  state is (\<^verbatim>\<open>witnessArgs\<close>, \<^verbatim>\<open>proofArgs\<close>, \<^verbatim>\<open>args\<close>); the first parameter the loop
  cannot classify ends it with line 75's error. The arrays hold types, a parameter may
  be \<^verbatim>\<open>undefined\<close>: the two branches for an \<^verbatim>\<open>undefined\<close> parameter that is
  classified are never taken, since \<^verbatim>\<open>isProof\<close> is false on everything and
  \<^verbatim>\<open>isAsFields\<close> is false on \<^verbatim>\<open>undefined\<close>.
\<close>

fun classify ::
  "string \<Rightarrow> AsFieldElements option list \<Rightarrow> nat
     \<Rightarrow> AsFieldElements list \<times> AsFieldElements list \<times> (string \<times> nat) list
     \<Rightarrow> error + (AsFieldElements list \<times> AsFieldElements list \<times> (string \<times> nat) list)" where
  "classify name [] i acc = Inr acc"
| "classify name (Parameter # rest) i (wArgs, pArgs, tbl) =
     (if isProof Parameter then
        (case Parameter of
           None \<Rightarrow> Inl TypeError
         | Some t \<Rightarrow> classify name rest (Suc i) (wArgs, pArgs @ [t], tbl @ [(''proof'', length pArgs)]))
      else if isAsFields Parameter then
        (case Parameter of
           None \<Rightarrow> Inl TypeError
         | Some t \<Rightarrow> classify name rest (Suc i) (wArgs @ [t], pArgs, tbl @ [(''witness'', length wArgs)]))
      else Inl (InvalidArgument i name))"

text \<open>A value that is called as a function: calling a non-function throws.\<close>

fun as_function :: "property \<Rightarrow> Function" where
  "as_function (PFunction f) = f"
| "as_function (PValue v) = \<lparr>fname = ''undefined'', fapply = (\<lambda>this xs. throwM TypeError)\<rparr>"

text \<open>
  Lines 48 to 90, the decorator \<^verbatim>\<open>method\<close>. It mutates the class (\<^verbatim>\<open>_methods\<close>) and the
  descriptor it is given, and may throw in between, so it returns the class as it has
  left it together with the error or the descriptor. A descriptor is represented by its
  \<^verbatim>\<open>value\<close>; \<^verbatim>\<open>None\<close> is an \<^verbatim>\<open>undefined\<close> descriptor. The function object
  that \<^verbatim>\<open>wrapMethod\<close> returns is named \<^verbatim>\<open>wrappedMethod\<close>.
\<close>

definition method_decorator ::
  "externals \<Rightarrow> ZkappClass \<Rightarrow> string \<Rightarrow> property option \<Rightarrow> (error + property) \<times> ZkappClass" where
  "method_decorator X target name descriptor =
     (if name \<in> set reservedPropNames then (Inl (ReservedPropName name), target)
      else case get_property target name of
        None \<Rightarrow> (Inl (NotAFunction name), target)
      | Some (PValue v) \<Rightarrow> (Inl (NotAFunction name), target)
      | Some (PFunction g) \<Rightarrow>
         (case paramtypes target name of
            None \<Rightarrow> (Inl TypeError, target)
          | Some paramTypes \<Rightarrow>
             (case classify name paramTypes 0 ([], [], []) of
                Inl e \<Rightarrow> (Inl e, target)
              | Inr (wArgs, pArgs, tbl) \<Rightarrow>
                 (let methods0 = (case static_methods target of None \<Rightarrow> [] | Some ms \<Rightarrow> ms);
                      target1 = target\<lparr>static_methods := Some (methods0 @
                        [\<lparr>methodName = name, witnessArgs = wArgs, proofArgs = pArgs, args = tbl\<rparr>])\<rparr>;
                      argsLength = length tbl
                  in case descriptor of
                       None \<Rightarrow> (Inl TypeError, target1)
                     | Some d \<Rightarrow>
                         (Inr (PFunction
                            \<lparr>fname = ''wrappedMethod'',
                             fapply = wrapMethod X (as_function d) argsLength (className target)\<rparr>),
                          target1)))))"

text \<open>
  Lines 634 to 646. The record of argument lists is the list of its entries in the order
  \<^verbatim>\<open>for ... in\<close> visits them. Each step stores the metadata, reads the own descriptor,
  calls the decorator and redefines the property; a throw ends the loop and leaves the
  class as it is then.
\<close>

fun declareMethods ::
  "externals \<Rightarrow> ZkappClass \<Rightarrow> (string \<times> AsFieldElements option list) list \<Rightarrow> (error + unit) \<times> ZkappClass" where
  "declareMethods X cls [] = (Inr (), cls)"
| "declareMethods X cls ((key, argumentTypes) # rest) =
     (let target = cls\<lparr>paramtypes := (paramtypes cls)(key := Some argumentTypes)\<rparr>;
          descriptor = prototype target key
      in case method_decorator X target key descriptor of
           (Inl e, target1) \<Rightarrow> (Inl e, target1)
         | (Inr descriptor1, target1) \<Rightarrow>
             declareMethods X (target1\<lparr>prototype := (prototype target1)(key := Some descriptor1)\<rparr>) rest)"

text \<open>
  The other registration path, written from its description: the decorator
  \<^verbatim>\<open>@method\<close> on a method of the class body. The compiler has stored the parameter
  types as metadata of the method; the decorator is called with the prototype, the method's
  name and the method's own descriptor, and the descriptor it leaves is defined on the
  prototype again.
\<close>

definition apply_method_decorator ::
  "externals \<Rightarrow> ZkappClass \<Rightarrow> string \<Rightarrow> AsFieldElements option list \<Rightarrow> (error + unit) \<times> ZkappClass" where
  "apply_method_decorator X cls key types =
     (let compiled = cls\<lparr>paramtypes := (paramtypes cls)(key := Some types)\<rparr>
      in case method_decorator X compiled key (prototype compiled key) of
           (Inl e, cls1) \<Rightarrow> (Inl e, cls1)
         | (Inr d, cls1) \<Rightarrow> (Inr (), cls1\<lparr>prototype := (prototype cls1)(key := Some d)\<rparr>))"

section \<open>Contexts and sessions\<close>

text \<open>
  Modelled from the spec: \<^verbatim>\<open>withContext\<close> and \<^verbatim>\<open>withContextAsync\<close> of
  \<^verbatim>\<open>./global-context\<close> (\<open>activate(config, body)\<close>): the body runs with the
  configuration as the active context, the previous context is restored on every exit,
  also a failing one, and the result is the context's party with the body's result.
\<close>

definition withContext :: "MainContext \<Rightarrow> 'a M \<Rightarrow> (nat \<times> 'a) M" where
  "withContext ctx f w =
     (let prev = mainContext w
      in case f (w\<lparr>mainContext := Some ctx\<rparr>) of
           (Inl e, w1) \<Rightarrow> (Inl e, w1\<lparr>mainContext := prev\<rparr>)
         | (Inr x, w1) \<Rightarrow> (Inr (ctx_self ctx, x), w1\<lparr>mainContext := prev\<rparr>))"

text \<open>
  Modelled from the spec: \<^verbatim>\<open>Party.defaultParty\<close> of \<^verbatim>\<open>./party\<close>
  (\<open>createDefaultUpdate(address)\<close>): a new update for the address that changes nothing.
\<close>

definition Party_defaultParty :: "PublicKey \<Rightarrow> world \<Rightarrow> nat \<times> world" where
  "Party_defaultParty addr w = alloc_party (Party_new (Body_keepAll addr) NoAuthorization False) w"

text \<open>
  Modelled from the spec: \<^verbatim>\<open>Mina.setCurrentTransaction\<close> and
  \<^verbatim>\<open>Mina.createUnsignedTransaction\<close> of \<^verbatim>\<open>./mina\<close>. A transaction-building session
  is opened with no parties, the body runs inside it, and the transaction is made of the
  parties the session holds when the body returns. Closing the session, also after a
  throw, removes it and advances the transaction identifier, so that the next session has
  another one. A session cannot be opened inside a session. The fee payer of an unsigned
  transaction is a dummy.
\<close>

definition setCurrentTransaction :: "CurrentTransaction \<Rightarrow> unit M" where
  "setCurrentTransaction tx w = (Inr (), w\<lparr>currentTransaction := Some tx\<rparr>)"

definition dummyFeePayer :: FeePayer where
  "dummyFeePayer = \<lparr>fp_publicKey = None, fp_nonce = 0, fp_fee = 0, fp_signedBy = None\<rparr>"

definition close_session :: "world \<Rightarrow> world" where
  "close_session w = w\<lparr>currentTransaction := None, nextTransactionId := Suc (nextTransactionId w)\<rparr>"

definition createUnsignedTransaction :: "'a M \<Rightarrow> Parties M" where
  "createUnsignedTransaction f w =
     (case currentTransaction w of
        Some tx \<Rightarrow> (Inl TransactionInProgress, w)
      | None \<Rightarrow>
         (case f (w\<lparr>currentTransaction := Some \<lparr>parties = [], nextPartyIndex = 0\<rparr>\<rparr>) of
            (Inl e, w1) \<Rightarrow> (Inl e, close_session w1)
          | (Inr x, w1) \<Rightarrow>
             (case currentTransaction w1 of
                None \<Rightarrow> (Inl TypeError, close_session w1)
              | Some tx \<Rightarrow>
                 (Inr \<lparr>feePayer = dummyFeePayer, otherParties = parties tx\<rparr>, close_session w1))))"

text \<open>
  Modelled from the spec: \<^verbatim>\<open>toJSON\<close> and \<^verbatim>\<open>sign\<close> of a transaction. Serializing
  reads the parties; signing completes the authorizations of the parties and changes
  nothing else.
\<close>

definition Transaction_toJSON :: "Parties \<Rightarrow> world \<Rightarrow> TransactionJson" where
  "Transaction_toJSON tx w =
     \<lparr>json_feePayer = feePayer tx, json_otherParties = map (heap w) (otherParties tx)\<rparr>"


section \<open>Proving\<close>

text \<open>\<^verbatim>\<open>findIndex\<close>: the first index whose element satisfies the test; \<^verbatim>\<open>None\<close> is -1.\<close>

fun findIndex :: "('a \<Rightarrow> bool) \<Rightarrow> 'a list \<Rightarrow> nat option" where
  "findIndex P [] = None"
| "findIndex P (x # xs) =
     (if P x then Some 0 else (case findIndex P xs of None \<Rightarrow> None | Some i \<Rightarrow> Some (Suc i)))"

text \<open>\<^verbatim>\<open>this[methodName](...)\<close>: calling a member that is missing or no function throws.\<close>

definition call_method :: "ZkappClass \<Rightarrow> nat \<Rightarrow> string \<Rightarrow> jsval list \<Rightarrow> jsval M" where
  "call_method cls this name xs =
     (case get_property cls name of
        None \<Rightarrow> throwM TypeError
      | Some p \<Rightarrow> fapply (as_function p) this xs)"

text \<open>\<^verbatim>\<open>provers_[i](statement)\<close>.\<close>

definition call_prover :: "Prover list \<Rightarrow> nat \<Rightarrow> Statement \<Rightarrow> string M" where
  "call_prover ps i statement =
     (if i < length ps then (ps ! i) statement else throwM TypeError)"

text \<open>
  Lines 272 to 315. The class is the instance's constructor. The two passes run one after
  the other; \<^verbatim>\<open>Circuit.runAndCheck\<close> runs its body, whose failed assertions are the
  body's errors. The result is the proof, the statement and the party of the first pass.
\<close>

definition prove ::
  "externals \<Rightarrow> ZkappClass \<Rightarrow> nat \<Rightarrow> string \<Rightarrow> jsval list \<Rightarrow> Prover list option
     \<Rightarrow> (string \<times> Statement \<times> nat) M" where
  "prove X cls this name xs provers =
     (case (case provers of None \<Rightarrow> static_provers cls | Some ps \<Rightarrow> Some ps) of
        None \<Rightarrow> throwM NotCompiled
      | Some provers' \<Rightarrow>
         (case static_methods cls of
            None \<Rightarrow> throwM TypeError
          | Some ms \<Rightarrow>
             (case findIndex (\<lambda>m. methodName m = name) ms of
                None \<Rightarrow> throwM (MethodNotFound name)
              | Some i \<Rightarrow>
                 bindM (getsM (\<lambda>w. address (instances w this))) (\<lambda>addr1.
                 bindM (liftS (Party_defaultParty addr1)) (\<lambda>p1.
                 bindM (withContext
                          \<lparr>ctx_self = p1, ctx_witnesses = None, ctx_inCompile = False, ctx_inProver = True\<rparr>
                          (call_method cls this name (xs @ [JBool True]))) (\<lambda>(selfParty', _).
                 bindM (createUnsignedTransaction
                          (setCurrentTransaction \<lparr>parties = [selfParty'], nextPartyIndex = 1\<rparr>)) (\<lambda>tx.
                 bindM (getsM (Transaction_toJSON tx)) (\<lambda>txJson.
                 let statement = transactionStatement X txJson 0 in
                 bindM (getsM (\<lambda>w. address (instances w this))) (\<lambda>addr2.
                 bindM (liftS (Party_defaultParty addr2)) (\<lambda>p2.
                 bindM (withContext
                          \<lparr>ctx_self = p2, ctx_witnesses = Some xs, ctx_inCompile = False, ctx_inProver = True\<rparr>
                          (call_prover provers' i statement)) (\<lambda>(_, prf).
                 returnM (prf, statement, selfParty'))))))))))))"

text \<open>
  Modelled from the spec: a prover handle that \<^verbatim>\<open>Pickles.compile\<close> returns for a rule.
  It runs the rule's circuit body on the statement in the active context and, when the
  body passes, returns the proof system's opaque proof for the rule and the statement.
\<close>

definition Pickles_prover :: "externals \<Rightarrow> nat \<times> string \<times> (Statement \<Rightarrow> unit M) \<Rightarrow> Prover" where
  "Pickles_prover X rule statement =
     (case rule of (tag, name, body_main) \<Rightarrow>
        bindM (body_main statement) (\<lambda>_. returnM (Pickles_proof X name statement)))"

section \<open>Deployment\<close>





definition balance_addInPlace :: "nat \<Rightarrow> Party \<Rightarrow> Party" where
  "balance_addInPlace x p = p\<lparr>body := (body p)\<lparr>balanceChange := balanceChange (body p) + int x\<rparr>\<rparr>"










section \<open>Sample inputs\<close>

text \<open>
  Concrete stores at which the theorems below are instantiated: a store with one contract
  instance (number 0, at address 7) and no party, the same store inside a
  transaction-building session, a store inside a session with transaction identifier 1
  whose instance still holds the memo of identifier 0, and a store in which a session and an ambient context are
  both active (the situation of line 287 when \<^verbatim>\<open>prove\<close> is called inside a
  transaction block), whose context holds party 0.
\<close>

definition world0 :: world where
  "world0 =
     \<lparr>heap = (\<lambda>r. Party_new (Body_keepAll 0) NoAuthorization False), nextRef = 0,
      instances = (\<lambda>i. \<lparr>address = 7, executionState_memo = None\<rparr>), nextInstance = 1,
      mainContext = None, currentTransaction = None, nextTransactionId = 0\<rparr>"

definition session_world :: world where
  "session_world = world0\<lparr>currentTransaction := Some \<lparr>parties = [], nextPartyIndex = 0\<rparr>\<rparr>"

definition later_session_world :: world where
  "later_session_world =
     world0\<lparr>nextRef := 1,
            instances := (\<lambda>i. \<lparr>address = 7,
               executionState_memo =
                 Some \<lparr>transactionId = Num 0, partyIndex = Num 0, party = 0\<rparr>\<rparr>),
            currentTransaction := Some \<lparr>parties = [], nextPartyIndex = 0\<rparr>,
            nextTransactionId := 1\<rparr>"

definition proving_in_session_world :: world where
  "proving_in_session_world =
     world0\<lparr>nextRef := 1,
            mainContext := Some \<lparr>ctx_self = 0, ctx_witnesses = None,
                                 ctx_inCompile = False, ctx_inProver = True\<rparr>,
            currentTransaction := Some \<lparr>parties = [], nextPartyIndex = 0\<rparr>\<rparr>"

definition proving_world :: world where
  "proving_world =
     world0\<lparr>nextRef := 1,
            mainContext := Some \<lparr>ctx_self = 0, ctx_witnesses = Some [],
                                 ctx_inCompile = False, ctx_inProver = True\<rparr>\<rparr>"

text \<open>
  A concrete choice of the collaborators: the hash of a party is its balance delta, the
  transaction hash adds one, witness allocation returns the value it is given, the
  precondition check passes, signing keeps the authorization, the account creation fee
  is 1. And a method body that returns its first argument.
\<close>

definition externals0 :: externals where
  "externals0 =
     \<lparr>Party_hash = (\<lambda>p. balanceChange (body p)),
      hashTransactionChecked = (\<lambda>x. x + 1),
      transactionStatement = (\<lambda>j i. \<lparr>transaction = 1, atParty = 0\<rparr>),
      Circuit_witness = (\<lambda>t v. Inr v),
      assertPreconditionInvariants = (\<lambda>p. Inr ()),
      cleanPreconditionsCache = (\<lambda>p. p),
      accountCreationFee = 1,
      toPublicKey = (\<lambda>k. k + 100),
      getAccountNonce = (\<lambda>a. Inr 0),
      addMissingSignature = authorization,
      Pickles_proof = (\<lambda>name st. name)\<rparr>"

definition first_argument :: Function where
  "first_argument =
     \<lparr>fname = ''first_argument'', fapply = (\<lambda>this xs w. (Inr (js_index xs 0), w))\<rparr>"

text \<open>
  A witness type with the three members, a method body with two arguments that adds their
  sum to the balance delta of \<^verbatim>\<open>self\<close> and throws on any other argument list, a
  class with that body as its method \<^verbatim>\<open>bump\<close>, the class after
  \<^verbatim>\<open>declareMethods(C, {bump: [Field, Field]})\<close>, the prover handle of its rule (the
  rule's function calls \<^verbatim>\<open>bump\<close> on instance 0, as the closure of line 232 does),
  and stores whose context supplies one, two and three witness values.
\<close>

definition field_type :: AsFieldElements where
  "field_type = \<lparr>props = [''sizeInFields'', ''toFields'', ''ofFields''], sizeInFields = 1\<rparr>"

definition bump_body :: Function where
  "bump_body =
     \<lparr>fname = ''bump'',
      fapply = (\<lambda>this xs.
        (case xs of
           [JFields [a], JFields [b]] \<Rightarrow>
             bindM (liftS (self this)) (\<lambda>p.
             bindM (modifyM (update_party p (balance_addInPlace (nat (a + b))))) (\<lambda>_.
             returnM JUndefined))
         | _ \<Rightarrow> throwM (Thrown ''bad arguments'')))\<rparr>"

definition class0 :: ZkappClass where
  "class0 =
     \<lparr>className = ''C'', static_methods = None, static_provers = None,
      static_verificationKey = None,
      prototype = (\<lambda>k. if k = ''bump'' then Some (PFunction bump_body) else None),
      inherited = (\<lambda>k. None),
      paramtypes = (\<lambda>k. None)\<rparr>"

definition registered_class :: ZkappClass where
  "registered_class =
     snd (declareMethods externals0 class0 [(''bump'', [Some field_type, Some field_type])])"

definition provers0 :: "Prover list" where
  "provers0 =
     [Pickles_prover externals0
        (picklesRuleFromFunction externals0 ''bump'' (call_method registered_class 0 ''bump'')
           [field_type, field_type])]"

definition two_witnesses_world :: world where
  "two_witnesses_world =
     world0\<lparr>nextRef := 1,
            mainContext := Some \<lparr>ctx_self = 0, ctx_witnesses = Some [JFields [5], JFields [6]],
                                 ctx_inCompile = False, ctx_inProver = True\<rparr>\<rparr>"

definition one_witness_world :: world where
  "one_witness_world =
     world0\<lparr>nextRef := 1,
            mainContext := Some \<lparr>ctx_self = 0, ctx_witnesses = Some [JFields [5]],
                                 ctx_inCompile = False, ctx_inProver = True\<rparr>\<rparr>"

definition three_witnesses_world :: world where
  "three_witnesses_world =
     world0\<lparr>nextRef := 1,
            mainContext := Some \<lparr>ctx_self = 0,
                                 ctx_witnesses = Some [JFields [5], JFields [6], JFields [9]],
                                 ctx_inCompile = False, ctx_inProver = True\<rparr>\<rparr>"

section \<open>The pending account update of an instance\<close>

lemma self_session_miss:
  assumes "mainContext w = None" and "currentTransaction w = Some tx"
      and "\<forall>es. executionState_memo (instances w this) = Some es
             \<longrightarrow> transactionId es \<noteq> Num (nextTransactionId w)"
  shows "self this w =
           (nextRef w,
            w\<lparr>heap := (heap w)
                 (nextRef w := Party_new (Body_keepAll (address (instances w this))) NoAuthorization True),
              nextRef := Suc (nextRef w),
              currentTransaction :=
                Some \<lparr>parties = parties tx @ [nextRef w], nextPartyIndex = Suc (nextPartyIndex tx)\<rparr>,
              instances := (instances w)
                (this := (instances w this)\<lparr>executionState_memo :=
                   Some \<lparr>transactionId = Num (nextTransactionId w),
                         partyIndex = Num (nextPartyIndex tx), party = nextRef w\<rparr>\<rparr>)\<rparr>)"
  using assms
  by (auto simp add: self_def executionState_def new_executionState_def selfParty_def
        alloc_party_def Let_def split: option.splits)

lemma self_session_hit:
  assumes "mainContext w = None" and "currentTransaction w = Some tx"
      and "executionState_memo (instances w this) = Some es"
      and "transactionId es = Num (nextTransactionId w)"
  shows "self this w = (party es, w)"
  using assms by (simp add: self_def executionState_def)

lemma self_context:
  assumes "mainContext w = Some ctx"
  shows "self this w = (ctx_self ctx, w)"
  using assms by (simp add: self_def executionState_def)

text \<open>
  C6, amended. Inside a transaction-building session and with no ambient execution
  context active, an access of \<^verbatim>\<open>self\<close> that finds no memo for the current transaction
  identifier (the first access of the session, or an access after the identifier has
  changed) creates a new default update for the instance's address, pushes it on the
  session and memoizes it on the instance under the current identifier; every later
  access under the same identifier, in any store that still holds that memo, returns the
  same update and changes nothing; and the update returned is never the one a stale memo
  holds.
\<close>

theorem self_memoized_in_session:
  assumes ctx: "mainContext w = None"
      and tx: "currentTransaction w = Some tx"
      and miss: "\<forall>es. executionState_memo (instances w this) = Some es
                   \<longrightarrow> transactionId es \<noteq> Num (nextTransactionId w)"
  shows "fst (self this w) = nextRef w
       \<and> heap (snd (self this w)) (nextRef w)
           = Party_new (Body_keepAll (address (instances w this))) NoAuthorization True
       \<and> currentTransaction (snd (self this w))
           = Some \<lparr>parties = parties tx @ [nextRef w], nextPartyIndex = Suc (nextPartyIndex tx)\<rparr>
       \<and> executionState_memo (instances (snd (self this w)) this)
           = Some \<lparr>transactionId = Num (nextTransactionId w),
                    partyIndex = Num (nextPartyIndex tx), party = nextRef w\<rparr>
       \<and> (\<forall>w2. mainContext w2 = None \<and> currentTransaction w2 \<noteq> None
                \<and> nextTransactionId w2 = nextTransactionId w
                \<and> executionState_memo (instances w2 this)
                    = executionState_memo (instances (snd (self this w)) this)
              \<longrightarrow> self this w2 = (nextRef w, w2))
       \<and> (\<forall>es. executionState_memo (instances w this) = Some es \<and> party es < nextRef w
              \<longrightarrow> fst (self this w) \<noteq> party es)"
proof -
  note step = self_session_miss [OF ctx tx miss]
  have later: "self this w2 = (nextRef w, w2)"
    if "mainContext w2 = None" and "currentTransaction w2 \<noteq> None"
      and "nextTransactionId w2 = nextTransactionId w"
      and "executionState_memo (instances w2 this)
             = executionState_memo (instances (snd (self this w)) this)" for w2
  proof -
    from that(2) obtain tx2 where tx2: "currentTransaction w2 = Some tx2" by auto
    have memo: "executionState_memo (instances w2 this)
          = Some \<lparr>transactionId = Num (nextTransactionId w),
                   partyIndex = Num (nextPartyIndex tx), party = nextRef w\<rparr>"
      using that(4) by (simp add: step)
    show ?thesis
      using self_session_hit [OF that(1) tx2 memo] that(3) by simp
  qed
  show ?thesis
    using later by (auto simp add: step)
qed

theorem self_memoized_in_session_witness:
  "mainContext session_world = None
   \<and> currentTransaction session_world = Some \<lparr>parties = [], nextPartyIndex = 0\<rparr>
   \<and> executionState_memo (instances session_world 0) = None
   \<and> fst (self 0 session_world) = 0
   \<and> currentTransaction (snd (self 0 session_world)) = Some \<lparr>parties = [0], nextPartyIndex = 1\<rparr>
   \<and> executionState_memo (instances (snd (self 0 session_world)) 0)
       = Some \<lparr>transactionId = Num 0, partyIndex = Num 0, party = 0\<rparr>
   \<and> self 0 (snd (self 0 session_world)) = (0, snd (self 0 session_world))
   \<and> mainContext later_session_world = None
   \<and> currentTransaction later_session_world = Some \<lparr>parties = [], nextPartyIndex = 0\<rparr>
   \<and> executionState_memo (instances later_session_world 0)
       = Some \<lparr>transactionId = Num 0, partyIndex = Num 0, party = 0\<rparr>
   \<and> nextTransactionId later_session_world = 1
   \<and> fst (self 0 later_session_world) = 1
   \<and> executionState_memo (instances (snd (self 0 later_session_world)) 0)
       = Some \<lparr>transactionId = Num 1, partyIndex = Num 0, party = 1\<rparr>"
proof -
  have h1: "mainContext session_world = None"
    by (simp add: session_world_def world0_def)
  have h2: "currentTransaction session_world = Some \<lparr>parties = [], nextPartyIndex = 0\<rparr>"
    by (simp add: session_world_def world0_def)
  have h3: "\<forall>es. executionState_memo (instances session_world 0) = Some es
              \<longrightarrow> transactionId es \<noteq> Num (nextTransactionId session_world)"
    by (simp add: session_world_def world0_def)
  have h4: "executionState_memo (instances session_world 0) = None"
    by (simp add: session_world_def world0_def)
  have n: "nextRef session_world = 0" "nextTransactionId session_world = 0"
    by (simp_all add: session_world_def world0_def)
  note t = self_memoized_in_session [OF h1 h2 h3]
  have t1: "fst (self 0 session_world) = nextRef session_world"
    using t by blast
  have t3: "currentTransaction (snd (self 0 session_world))
       = Some \<lparr>parties = parties \<lparr>parties = [], nextPartyIndex = 0\<rparr> @ [nextRef session_world],
                nextPartyIndex = Suc (nextPartyIndex \<lparr>parties = [], nextPartyIndex = 0\<rparr>)\<rparr>"
    using t by blast
  have t4: "executionState_memo (instances (snd (self 0 session_world)) 0)
       = Some \<lparr>transactionId = Num (nextTransactionId session_world),
                partyIndex = Num (nextPartyIndex \<lparr>parties = [], nextPartyIndex = 0\<rparr>),
                party = nextRef session_world\<rparr>"
    using t by blast
  have t5: "mainContext w2 = None \<and> currentTransaction w2 \<noteq> None
       \<and> nextTransactionId w2 = nextTransactionId session_world
       \<and> executionState_memo (instances w2 0)
            = executionState_memo (instances (snd (self 0 session_world)) 0)
       \<longrightarrow> self 0 w2 = (nextRef session_world, w2)" for w2
    using t by blast
  have later: "self 0 (snd (self 0 session_world)) = (0, snd (self 0 session_world))"
  proof -
    have "mainContext (snd (self 0 session_world)) = None"
      by (simp add: self_session_miss [OF h1 h2 h3] h1)
    moreover have "currentTransaction (snd (self 0 session_world)) \<noteq> None"
      using t3 by simp
    moreover have "nextTransactionId (snd (self 0 session_world)) = nextTransactionId session_world"
      by (simp add: self_session_miss [OF h1 h2 h3])
    ultimately show ?thesis using t5 [of "snd (self 0 session_world)"] n by simp
  qed
  have k1: "mainContext later_session_world = None"
    by (simp add: later_session_world_def world0_def)
  have k2: "currentTransaction later_session_world = Some \<lparr>parties = [], nextPartyIndex = 0\<rparr>"
    by (simp add: later_session_world_def world0_def)
  have k4: "executionState_memo (instances later_session_world 0)
       = Some \<lparr>transactionId = Num 0, partyIndex = Num 0, party = 0\<rparr>"
    by (simp add: later_session_world_def world0_def)
  have m: "nextRef later_session_world = 1" "nextTransactionId later_session_world = 1"
    by (simp_all add: later_session_world_def world0_def)
  have k3: "\<forall>es. executionState_memo (instances later_session_world 0) = Some es
              \<longrightarrow> transactionId es \<noteq> Num (nextTransactionId later_session_world)"
    by (simp add: k4 m)
  note u = self_memoized_in_session [OF k1 k2 k3]
  have u1: "fst (self 0 later_session_world) = nextRef later_session_world"
    using u by blast
  have u4: "executionState_memo (instances (snd (self 0 later_session_world)) 0)
       = Some \<lparr>transactionId = Num (nextTransactionId later_session_world),
                partyIndex = Num (nextPartyIndex \<lparr>parties = [], nextPartyIndex = 0\<rparr>),
                party = nextRef later_session_world\<rparr>"
    using u by blast
  show ?thesis
    using h1 h2 h4 t1 t3 t4 later n k1 k2 k4 m u1 u4 by simp
qed

text \<open>
  C6 as stated fails where a session and an ambient context are both active: the access
  returns the context's party, memoizes nothing on the instance and pushes nothing on the
  session.
\<close>

theorem self_in_session_counterexample:
  "currentTransaction proving_in_session_world = Some \<lparr>parties = [], nextPartyIndex = 0\<rparr>
   \<and> executionState_memo (instances proving_in_session_world 0) = None
   \<and> self 0 proving_in_session_world = (0, proving_in_session_world)
   \<and> executionState_memo (instances (snd (self 0 proving_in_session_world)) 0) = None
   \<and> currentTransaction (snd (self 0 proving_in_session_world))
       = Some \<lparr>parties = [], nextPartyIndex = 0\<rparr>"
  by (simp add: self_def executionState_def proving_in_session_world_def world0_def)

lemma self_twice:
  assumes "currentTransaction w \<noteq> None \<or> mainContext w \<noteq> None" and "self this w = (p, w1)"
  shows "self this w1 = (p, w1)"
  using assms
  by (auto simp add: self_def executionState_def new_executionState_def selfParty_def
        alloc_party_def Let_def split: option.splits if_splits)

text \<open>
  C9. With no ambient context and no session, reading \<^verbatim>\<open>self\<close> allocates a new
  default update for the instance's address and returns it under the identifier
  \<^verbatim>\<open>NaN\<close>, which equals no transaction identifier; the instances (so every memo) and
  the absent session are as before; and whatever is done to that update, the next read
  returns another reference whose update is again the default one.
\<close>

theorem self_outside_session_fresh:
  assumes "mainContext w = None" and "currentTransaction w = None"
  shows "executionState this w =
           (\<lparr>transactionId = NaN, partyIndex = NaN, party = nextRef w\<rparr>,
            w\<lparr>heap := (heap w)
                 (nextRef w := Party_new (Body_keepAll (address (instances w this))) NoAuthorization True),
              nextRef := Suc (nextRef w)\<rparr>)
       \<and> (\<forall>n. transactionId (fst (executionState this w)) \<noteq> Num n)
       \<and> instances (snd (self this w)) = instances w
       \<and> currentTransaction (snd (self this w)) = None
       \<and> (\<forall>f. fst (self this (update_party (fst (self this w)) f (snd (self this w))))
                 \<noteq> fst (self this w)
              \<and> heap (snd (self this (update_party (fst (self this w)) f (snd (self this w)))))
                   (fst (self this (update_party (fst (self this w)) f (snd (self this w)))))
                 = Party_new (Body_keepAll (address (instances w this))) NoAuthorization True)"
  using assms
  by (simp add: self_def executionState_def selfParty_def alloc_party_def update_party_def)

theorem self_outside_session_fresh_witness:
  "mainContext world0 = None \<and> currentTransaction world0 = None
   \<and> fst (self 0 world0) = 0
   \<and> instances (snd (self 0 world0)) = instances world0
   \<and> fst (self 0 (update_party 0 (balance_addInPlace 5) (snd (self 0 world0)))) \<noteq> 0
   \<and> heap (snd (self 0 (update_party 0 (balance_addInPlace 5) (snd (self 0 world0)))))
         (fst (self 0 (update_party 0 (balance_addInPlace 5) (snd (self 0 world0)))))
       = Party_new (Body_keepAll 7) NoAuthorization True"
proof -
  have h1: "mainContext world0 = None" and h2: "currentTransaction world0 = None"
    by (simp_all add: world0_def)
  have n: "nextRef world0 = 0" "address (instances world0 0) = 7"
    by (simp_all add: world0_def)
  have first: "fst (self 0 world0) = 0"
    using self_outside_session_fresh [OF h1 h2, of 0] n by (simp add: self_def)
  have t: "instances (snd (self 0 world0)) = instances world0
      \<and> (\<forall>f. fst (self 0 (update_party (fst (self 0 world0)) f (snd (self 0 world0))))
                 \<noteq> fst (self 0 world0)
              \<and> heap (snd (self 0 (update_party (fst (self 0 world0)) f (snd (self 0 world0)))))
                   (fst (self 0 (update_party (fst (self 0 world0)) f (snd (self 0 world0)))))
                 = Party_new (Body_keepAll (address (instances world0 0))) NoAuthorization True)"
    using self_outside_session_fresh [OF h1 h2, of 0] by blast
  show ?thesis
    using t h1 h2 n first by simp
qed

section \<open>The dispatch wrapper's branches\<close>

lemma no_authorization_keys:
  "(\<not> (''kind'' \<in> set (auth_keys a) \<or> ''proof'' \<in> set (auth_keys a)
        \<or> ''signature'' \<in> set (auth_keys a)))
     = (a = NoAuthorization)"
  by (cases a) simp_all

text \<open>
  C3. With no session active and the context not compiling, the wrapper is the original
  body applied to the arguments before the flag's position: the same result and the same
  store, so the wrapper itself attaches no authorization and changes no update.
\<close>

theorem wrapMethod_outside_session:
  assumes "currentTransaction w = None" and "\<not> inCompile w"
  shows "wrapMethod X method n cls this xs w = fapply method this (take n xs) w"
  using assms by (simp add: wrapMethod_def Let_def)

theorem wrapMethod_outside_session_witness:
  "currentTransaction world0 = None \<and> \<not> inCompile world0
   \<and> wrapMethod externals0 first_argument 1 ''C'' 0 [JFields [5], JFields [6]] world0
       = (Inr (JFields [5]), world0)"
proof -
  have h1: "currentTransaction world0 = None" and h2: "\<not> inCompile world0"
    by (simp_all add: world0_def inCompile_def)
  show ?thesis
    using wrapMethod_outside_session [OF h1 h2, of externals0 first_argument 1 "''C''" 0
        "[JFields [5], JFields [6]]"] h1 h2
    by (simp add: first_argument_def js_index_def)
qed

text \<open>
  C2. Inside a session and not forced direct, with \<open>p\<close> the pending update that
  \<^verbatim>\<open>self\<close> returns: the wrapper runs the original body on the arguments before the
  flag's position, in the store in which \<open>p\<close> has received the lazy proof of the
  method, those arguments and the class if \<open>p\<close> carried no authorization, and in the
  unchanged store if it carried one. Attaching sets the single authorization of \<open>p\<close>
  to that lazy proof and leaves every other update as it was. The wrapper's result is the
  body's in both cases.
\<close>

theorem wrapMethod_in_session:
  assumes session: "currentTransaction w \<noteq> None"
      and flag: "js_index xs n \<noteq> JBool True"
      and pending: "self this w = (p, w1)"
  shows "wrapMethod X method n cls this xs w =
           fapply method this (take n xs)
             (if authorization (heap w1 p) = NoAuthorization
              then update_party p
                     (\<lambda>pt. pt\<lparr>authorization := LazyProof (fname method) (take n xs) cls\<rparr>) w1
              else w1)
       \<and> authorization (heap
            (update_party p (\<lambda>pt. pt\<lparr>authorization := LazyProof (fname method) (take n xs) cls\<rparr>) w1) p)
           = LazyProof (fname method) (take n xs) cls
       \<and> (\<forall>q. q \<noteq> p \<longrightarrow>
            heap (update_party p
                    (\<lambda>pt. pt\<lparr>authorization := LazyProof (fname method) (take n xs) cls\<rparr>) w1) q
              = heap w1 q)"
proof -
  have again: "self this w1 = (p, w1)"
    using self_twice [OF _ pending] session by simp
  from session obtain tx where tx: "currentTransaction w = Some tx" by auto
  have keys: "(''kind'' \<notin> set (auth_keys a) \<and> ''proof'' \<notin> set (auth_keys a)
       \<and> ''signature'' \<notin> set (auth_keys a)) = (a = NoAuthorization)" for a
    using no_authorization_keys [of a] by simp
  show ?thesis
    using flag
    by (simp add: wrapMethod_def Let_def tx bindM_def liftS_def getsM_def modifyM_def returnM_def
          pending again keys update_party_def)
qed

theorem wrapMethod_in_session_witness:
  "currentTransaction session_world \<noteq> None
   \<and> js_index [JFields [5]] 1 \<noteq> JBool True
   \<and> fst (self 0 session_world) = 0
   \<and> authorization (heap (snd (self 0 session_world)) 0) = NoAuthorization
   \<and> fst (wrapMethod externals0 first_argument 1 ''C'' 0 [JFields [5]] session_world)
       = Inr (JFields [5])
   \<and> authorization
        (heap (snd (wrapMethod externals0 first_argument 1 ''C'' 0 [JFields [5]] session_world)) 0)
       = LazyProof ''first_argument'' [JFields [5]] ''C''"
proof -
  have h1: "currentTransaction session_world \<noteq> None"
    by (simp add: session_world_def world0_def)
  have h2: "js_index [JFields [5]] 1 \<noteq> JBool True"
    by (simp add: js_index_def)
  have s: "self 0 session_world = (0, snd (self 0 session_world))"
    by (simp add: self_def executionState_def new_executionState_def selfParty_def
          alloc_party_def session_world_def world0_def Let_def)
  have a: "authorization (heap (snd (self 0 session_world)) 0) = NoAuthorization"
    by (simp add: self_def executionState_def new_executionState_def selfParty_def
          alloc_party_def session_world_def world0_def Let_def Party_new_def)
  have f: "fst (self 0 session_world) = 0"
    by (simp add: self_def executionState_def new_executionState_def selfParty_def
          alloc_party_def session_world_def world0_def Let_def)
  show ?thesis
    using wrapMethod_in_session [OF h1 h2 s, of externals0 first_argument "''C''"] h1 h2 f a
    by (simp add: first_argument_def js_index_def update_party_def)
qed

section \<open>Statements\<close>

text \<open>
  C7. For every account update and tail, the statement that \<^verbatim>\<open>toStatement\<close> computes
  passes \<^verbatim>\<open>checkStatement\<close> against the same account update and tail.
\<close>

theorem statement_round_trip:
  "checkStatement X (toStatement X slf tail) slf tail = Inr ()"
  by (simp add: checkStatement_def assertEquals_def Let_def)

text \<open>
  C1. The circuit body does not compare the statement with the one recomputed from the
  context's party. At the statement (5, 5), which \<^verbatim>\<open>checkStatement\<close> rejects against
  party 0 of the store (whose statement is (1, 0)), the body passes.
\<close>

theorem main_accepts_mismatched_statement:
  "checkStatement externals0 \<lparr>transaction = 5, atParty = 5\<rparr> (heap proving_world 0) 0
     = Inl StatementMismatch
   \<and> toStatement externals0 (heap proving_world 0) 0 = \<lparr>transaction = 1, atParty = 0\<rparr>
   \<and> main externals0 (\<lambda>ws. returnM JUndefined) [] \<lparr>transaction = 5, atParty = 5\<rparr> proving_world
     = (Inr (), proving_world)"
  by (simp add: checkStatement_def toStatement_def assertEquals_def externals0_def
        proving_world_def world0_def Party_new_def Body_keepAll_def main_def bindM_def
        getContext_def liftE_def returnM_def modifyM_def update_party_def Let_def)

lemma main_ignores_statement:
  "main X func witnessTypes s1 w = main X func witnessTypes s2 w"
  by (simp add: main_def assertEquals_def)

section \<open>Registration\<close>

lemma classify_witnesses:
  assumes "\<forall>t \<in> set ts. isAsFields (Some t)"
  shows "classify name (map Some ts) i (wArgs, pArgs, tbl) =
           Inr (wArgs @ ts, pArgs, tbl @ map (\<lambda>j. (''witness'', length wArgs + j)) [0..<length ts])"
  using assms
proof (induction ts arbitrary: i wArgs tbl)
  case Nil
  then show ?case by simp
next
  case (Cons t ts)
  have "map (\<lambda>j. (''witness'', length wArgs + j)) [0..<length (t # ts)]
      = (''witness'', length wArgs) # map (\<lambda>j. (''witness'', length (wArgs @ [t]) + j)) [0..<length ts]"
    by (simp add: upt_rec [of 0] map_Suc_upt [symmetric] del: upt_Suc)
  with Cons show ?case
    by (simp add: isProof_def)
qed

lemma registered_class_eq:
  "registered_class =
     class0\<lparr>paramtypes := (paramtypes class0)(''bump'' := Some [Some field_type, Some field_type]),
            static_methods := Some
               [\<lparr>methodName = ''bump'', witnessArgs = [field_type, field_type], proofArgs = [],
                 args = [(''witness'', 0), (''witness'', 1)]\<rparr>],
            prototype := (prototype class0)
               (''bump'' := Some (PFunction
                  \<lparr>fname = ''wrappedMethod'',
                   fapply = wrapMethod externals0 bump_body 2 ''C''\<rparr>))\<rparr>"
  by (simp add: registered_class_def class0_def method_decorator_def get_property_def
        reservedPropNames_def isProof_def isAsFields_def field_type_def Let_def
        numeral_2_eq_2)

text \<open>
  C10. For every class, method name and list of parameter types, \<^verbatim>\<open>declareMethods\<close>
  with that one entry leaves the same class (or the same error) as the decorator applied
  with that list as the parameter-type metadata, and a longer record is the same steps
  in sequence. Where the name is not reserved, the method is an own function of the
  prototype and every type has the three members, both append the descriptor with the
  name, the types as witness arguments, no proof arguments and the table
  \<open>(witness, 0), ..., (witness, n - 1)\<close>, and both replace the method by the dispatch
  wrapper of the original function, the number of arguments and the class.
\<close>

theorem declareMethods_is_decorator:
  "declareMethods X cls [(key, types)] = apply_method_decorator X cls key types
   \<and> declareMethods X cls ((key, types) # rest) =
       (case apply_method_decorator X cls key types of
          (Inl e, cls1) \<Rightarrow> (Inl e, cls1)
        | (Inr u, cls1) \<Rightarrow> declareMethods X cls1 rest)
   \<and> (key \<notin> set reservedPropNames \<and> prototype cls key = Some (PFunction g)
        \<and> (\<forall>t \<in> set ts. isAsFields (Some t)) \<and> types = map Some ts
      \<longrightarrow> apply_method_decorator X cls key types =
           (Inr (),
            cls\<lparr>paramtypes := (paramtypes cls)(key := Some types),
                static_methods := Some
                  ((case static_methods cls of None \<Rightarrow> [] | Some ms \<Rightarrow> ms) @
                   [\<lparr>methodName = key, witnessArgs = ts, proofArgs = [],
                     args = map (\<lambda>j. (''witness'', j)) [0..<length ts]\<rparr>]),
                prototype := (prototype cls)
                  (key := Some (PFunction
                     \<lparr>fname = ''wrappedMethod'',
                      fapply = wrapMethod X g (length ts) (className cls)\<rparr>))\<rparr>))"
proof -
  have a: "declareMethods X cls [(key, types)] = apply_method_decorator X cls key types"
    by (auto simp add: apply_method_decorator_def Let_def split: prod.splits sum.splits)
  have s: "declareMethods X cls ((key, types) # rest) =
       (case apply_method_decorator X cls key types of
          (Inl e, cls1) \<Rightarrow> (Inl e, cls1)
        | (Inr u, cls1) \<Rightarrow> declareMethods X cls1 rest)"
    by (simp add: apply_method_decorator_def Let_def split: prod.splits sum.splits)
  have b: "apply_method_decorator X cls key (map Some ts) =
           (Inr (),
            cls\<lparr>paramtypes := (paramtypes cls)(key := Some (map Some ts)),
                static_methods := Some
                  ((case static_methods cls of None \<Rightarrow> [] | Some ms \<Rightarrow> ms) @
                   [\<lparr>methodName = key, witnessArgs = ts, proofArgs = [],
                     args = map (\<lambda>j. (''witness'', j)) [0..<length ts]\<rparr>]),
                prototype := (prototype cls)
                  (key := Some (PFunction
                     \<lparr>fname = ''wrappedMethod'',
                      fapply = wrapMethod X g (length ts) (className cls)\<rparr>))\<rparr>)"
    if "key \<notin> set reservedPropNames" and "prototype cls key = Some (PFunction g)"
      and "\<forall>t \<in> set ts. isAsFields (Some t)"
    using that classify_witnesses [OF that(3), of key 0 "[]" "[]" "[]"]
    by (simp add: apply_method_decorator_def method_decorator_def get_property_def Let_def)
  show ?thesis using a s b by blast
qed

theorem declareMethods_is_decorator_witness:
  "''bump'' \<notin> set reservedPropNames
   \<and> prototype class0 ''bump'' = Some (PFunction bump_body)
   \<and> isAsFields (Some field_type)
   \<and> declareMethods externals0 class0 [(''bump'', [Some field_type, Some field_type])]
       = apply_method_decorator externals0 class0 ''bump'' [Some field_type, Some field_type]
   \<and> fst (apply_method_decorator externals0 class0 ''bump'' [Some field_type, Some field_type])
       = Inr ()
   \<and> static_methods
        (snd (apply_method_decorator externals0 class0 ''bump'' [Some field_type, Some field_type]))
       = Some [\<lparr>methodName = ''bump'', witnessArgs = [field_type, field_type], proofArgs = [],
                 args = [(''witness'', 0), (''witness'', 1)]\<rparr>]"
proof -
  have h1: "''bump'' \<notin> set reservedPropNames" by (simp add: reservedPropNames_def)
  have h2: "prototype class0 ''bump'' = Some (PFunction bump_body)" by (simp add: class0_def)
  have h3: "isAsFields (Some field_type)" by (simp add: isAsFields_def field_type_def)
  have h4: "\<forall>t \<in> set [field_type, field_type]. isAsFields (Some t)" using h3 by simp
  have u: "[0..<2] = [0, 1]" by (simp add: upt_rec)
  show ?thesis
    using declareMethods_is_decorator [where X = externals0 and cls = class0 and key = "''bump''"
        and types = "[Some field_type, Some field_type]" and g = bump_body
        and ts = "[field_type, field_type]"] h1 h2 h3 h4 u
    by (simp add: class0_def)
qed

section \<open>Errors and witnesses of proving\<close>

lemma findIndex_None:
  "(findIndex P xs = None) = (\<forall>x \<in> set xs. \<not> P x)"
  by (induction xs) (auto split: option.splits)

text \<open>
  C5, amended. \<^verbatim>\<open>prove\<close> fails with \<open>NotCompiled\<close>, the store untouched, whenever no
  provers are supplied and the class has none, whatever the method name; and where
  provers are available and the class has a method list, it fails with
  \<open>MethodNotFound\<close>, the store untouched, whenever the name is not among the registered
  methods.
\<close>

theorem prove_caller_errors:
  "(provers = None \<and> static_provers cls = None
      \<longrightarrow> prove X cls this name xs provers w = (Inl NotCompiled, w))
   \<and> ((provers \<noteq> None \<or> static_provers cls \<noteq> None) \<and> static_methods cls = Some ms
        \<and> name \<notin> methodName ` set ms
      \<longrightarrow> prove X cls this name xs provers w = (Inl (MethodNotFound name), w))"
proof -
  have "findIndex (\<lambda>m. methodName m = name) ms = None" if "name \<notin> methodName ` set ms"
    using that by (auto simp add: findIndex_None)
  then show ?thesis
    by (auto simp add: prove_def throwM_def split: option.splits)
qed

theorem prove_caller_errors_witness:
  "static_provers registered_class = None
   \<and> static_methods registered_class
       = Some [\<lparr>methodName = ''bump'', witnessArgs = [field_type, field_type], proofArgs = [],
                 args = [(''witness'', 0), (''witness'', 1)]\<rparr>]
   \<and> prove externals0 registered_class 0 ''bump'' [] None world0 = (Inl NotCompiled, world0)
   \<and> prove externals0 registered_class 0 ''foo'' [] (Some provers0) world0
       = (Inl (MethodNotFound ''foo''), world0)"
proof -
  have h1: "static_provers registered_class = None"
    by (simp add: registered_class_eq class0_def)
  have h2: "static_methods registered_class
       = Some [\<lparr>methodName = ''bump'', witnessArgs = [field_type, field_type], proofArgs = [],
                 args = [(''witness'', 0), (''witness'', 1)]\<rparr>]"
    by (simp add: registered_class_eq class0_def)
  have h3: "''foo'' \<notin> methodName ` set [\<lparr>methodName = ''bump'', witnessArgs = [field_type, field_type],
       proofArgs = [], args = [(''witness'', 0), (''witness'', 1)]\<rparr>]"
    by simp
  show ?thesis
    using prove_caller_errors [where provers = None and cls = registered_class
          and X = externals0 and this = 0 and name = "''bump''" and xs = "[]" and w = world0]
      prove_caller_errors [where provers = "Some provers0" and cls = registered_class
          and X = externals0 and this = 0 and name = "''foo''" and xs = "[]" and w = world0
          and ms = "[\<lparr>methodName = ''bump'', witnessArgs = [field_type, field_type],
                     proofArgs = [], args = [(''witness'', 0), (''witness'', 1)]\<rparr>]"]
      h1 h2 h3
    by simp
qed

text \<open>
  C5 as stated fails at two inputs. The name \<^verbatim>\<open>foo\<close> is not registered, yet with no
  provers the failure is \<open>NotCompiled\<close>; and for a class on which no method was ever
  registered (\<^verbatim>\<open>_methods\<close> is \<^verbatim>\<open>undefined\<close>) line 281 throws the runtime's type
  error, also with provers supplied.
\<close>

theorem prove_errors_counterexample:
  "static_methods registered_class
       = Some [\<lparr>methodName = ''bump'', witnessArgs = [field_type, field_type], proofArgs = [],
                 args = [(''witness'', 0), (''witness'', 1)]\<rparr>]
   \<and> prove externals0 registered_class 0 ''foo'' [] None world0 = (Inl NotCompiled, world0)
   \<and> static_methods class0 = None
   \<and> prove externals0 class0 0 ''foo'' [] (Some provers0) world0 = (Inl TypeError, world0)"
  by (simp add: prove_def registered_class_eq class0_def throwM_def)

lemma map_witnesses_supplied:
  assumes "length ws = length tys"
      and "\<forall>i < length tys. Circuit_witness X (tys ! i) (js_index vs (k + i)) = Inr (ws ! i)"
  shows "map_witnesses X (Some vs) tys k = Inr ws"
  using assms
proof (induction tys arbitrary: ws k)
  case Nil
  then show ?case by simp
next
  case (Cons t tys)
  then obtain v ws' where ws: "ws = v # ws'" by (cases ws) auto
  have hd: "Circuit_witness X t (js_index vs k) = Inr v"
    using Cons.prems(2) ws by fastforce
  have tl: "\<forall>i < length tys. Circuit_witness X (tys ! i) (js_index vs (Suc k + i)) = Inr (ws' ! i)"
  proof (intro allI impI)
    fix i assume "i < length tys"
    then have "Circuit_witness X ((t # tys) ! Suc i) (js_index vs (k + Suc i)) = Inr (ws ! Suc i)"
      using Cons.prems(2) by (metis Suc_less_eq length_Cons)
    then show "Circuit_witness X (tys ! i) (js_index vs (Suc k + i)) = Inr (ws' ! i)"
      using ws by simp
  qed
  have "map_witnesses X (Some vs) tys (Suc k) = Inr ws'"
    using Cons.IH [OF _ tl] Cons.prems(1) ws by simp
  then show ?case using hd ws by simp
qed

lemma wrapMethod_direct:
  assumes "currentTransaction v = None" and "\<not> inCompile v"
  shows "wrapMethod X f n cn t a v = fapply f t (take n a) v"
  using assms by (simp add: wrapMethod_def Let_def)

lemma map_witnesses_error:
  assumes "map_witnesses X (Some vs) tys k = Inl e"
  shows "\<exists>i < length tys. Circuit_witness X (tys ! i) (js_index vs (k + i)) = Inl e"
  using assms
proof (induction tys arbitrary: k)
  case Nil
  then show ?case by simp
next
  case (Cons t tys)
  show ?case
  proof (cases "Circuit_witness X t (js_index vs k)")
    case (Inl e')
    with Cons.prems have "e' = e" by simp
    with Inl show ?thesis by auto
  next
    case (Inr v)
    with Cons.prems have "map_witnesses X (Some vs) tys (Suc k) = Inl e"
      by (simp split: sum.splits)
    from Cons.IH [OF this] obtain i where "i < length tys"
      and "Circuit_witness X (tys ! i) (js_index vs (Suc k + i)) = Inl e" by blast
    then have "Suc i < length (t # tys)
       \<and> Circuit_witness X ((t # tys) ! Suc i) (js_index vs (k + Suc i)) = Inl e" by simp
    then show ?thesis by blast
  qed
qed

lemma main_unfold:
  assumes "mainContext w = Some ctx"
  shows "main X func tys statement w =
     (case map_witnesses X (ctx_witnesses ctx) tys 0 of
        Inl e \<Rightarrow> (Inl e, w)
      | Inr ws \<Rightarrow>
         (case func ws w of
            (Inl e, w1) \<Rightarrow> (Inl e, w1)
          | (Inr r, w1) \<Rightarrow>
              (Inr (), update_party (ctx_self ctx) (cleanPreconditionsCache X) w1)))"
  using assms
  by (simp add: main_def bindM_def getContext_def liftE_def assertEquals_def modifyM_def
        split: sum.splits prod.splits)

lemma main_supplied:
  assumes "mainContext w = Some ctx" and "ctx_witnesses ctx = Some vs"
      and "length ws = length tys"
      and "\<forall>i < length tys. Circuit_witness X (tys ! i) (js_index vs i) = Inr (ws ! i)"
  shows "main X func tys statement w =
         (case func ws w of
            (Inl e, w1) \<Rightarrow> (Inl e, w1)
          | (Inr r, w1) \<Rightarrow>
              (Inr (), update_party (ctx_self ctx) (cleanPreconditionsCache X) w1))"
proof -
  have "map_witnesses X (Some vs) tys 0 = Inr ws"
    using map_witnesses_supplied [OF assms(3), of X vs 0] assms(4) by simp
  then show ?thesis
    using assms(1,2) by (simp add: main_unfold)
qed

lemma main_failure:
  assumes "mainContext w = Some ctx" and "ctx_witnesses ctx = Some vs"
      and "main X func tys statement w = (Inl e, w1)"
  shows "(\<exists>i < length tys. Circuit_witness X (tys ! i) (js_index vs i) = Inl e)
       \<or> (\<exists>ws. func ws w = (Inl e, w1))"
proof (cases "map_witnesses X (Some vs) tys 0")
  case (Inl e')
  with assms have "e' = e" by (simp add: main_unfold)
  with Inl map_witnesses_error [of X vs tys 0 e] show ?thesis by simp
next
  case (Inr ws)
  with assms have "func ws w = (Inl e, w1)"
    by (auto simp add: main_unfold split: sum.splits prod.splits)
  then show ?thesis by blast
qed

lemma prove_any_length:
  assumes nosession: "currentTransaction w = None"
      and resolved: "(case provers of None \<Rightarrow> static_provers cls | Some qs \<Rightarrow> Some qs) = Some ps"
      and methods: "static_methods cls = Some ms"
      and index: "findIndex (\<lambda>m. methodName m = name) ms = Some i"
      and wrapped: "get_property cls name
                      = Some (PFunction \<lparr>fname = fn, fapply = wrapMethod X f (length tys) cn\<rparr>)"
      and handle: "i < length ps"
                  "ps ! i = Pickles_prover X
                              (picklesRuleFromFunction X name (call_method cls inst name) tys)"
      and len: "length ws = length tys"
      and alloc: "\<forall>k < length tys. Circuit_witness X (tys ! k) (js_index xs k) = Inr (ws ! k)"
      and pass1: "\<forall>v. currentTransaction v = None \<longrightarrow>
                    (\<exists>r v'. fapply f this (take (length tys) (xs @ [JBool True])) v = (Inr r, v')
                            \<and> currentTransaction v' = None)"
      and pass2: "\<forall>v. currentTransaction v = None \<longrightarrow>
                    (\<exists>r v'. fapply f inst (take (length tys) ws) v = (Inr r, v'))"
  shows "\<exists>stmt w'. prove X cls this name xs provers w
                     = (Inr (Pickles_proof X name stmt, stmt, nextRef w), w')"
proof -
  define addr where "addr = address (instances w this)"
  define ctx1 where "ctx1 = \<lparr>ctx_self = nextRef w, ctx_witnesses = None,
                             ctx_inCompile = False, ctx_inProver = True\<rparr>"
  define W1 where "W1 = (snd (Party_defaultParty addr w))\<lparr>mainContext := Some ctx1\<rparr>"
  have W1s: "currentTransaction W1 = None" "\<not> inCompile W1"
    using nosession by (simp_all add: W1_def Party_defaultParty_def alloc_party_def inCompile_def ctx1_def)
  from pass1 W1s(1) obtain r1 w1 where
    b1: "fapply f this (take (length tys) (xs @ [JBool True])) W1 = (Inr r1, w1)"
    and s1: "currentTransaction w1 = None" by blast
  have c1: "call_method cls this name (xs @ [JBool True]) W1 = (Inr r1, w1)"
    using b1 by (simp add: call_method_def wrapped wrapMethod_direct [OF W1s])
  define wc where "wc = close_session
     (w1\<lparr>mainContext := mainContext (snd (Party_defaultParty addr w)),
         currentTransaction := Some \<lparr>parties = [nextRef w], nextPartyIndex = 1\<rparr>\<rparr>)"
  define stmt where "stmt = transactionStatement X
     (Transaction_toJSON \<lparr>feePayer = dummyFeePayer, otherParties = [nextRef w]\<rparr> wc) 0"
  define addr2 where "addr2 = address (instances wc this)"
  define ctx2 where "ctx2 = \<lparr>ctx_self = nextRef wc, ctx_witnesses = Some xs,
                             ctx_inCompile = False, ctx_inProver = True\<rparr>"
  define W2 where "W2 = (snd (Party_defaultParty addr2 wc))\<lparr>mainContext := Some ctx2\<rparr>"
  have W2s: "currentTransaction W2 = None" "\<not> inCompile W2" "mainContext W2 = Some ctx2"
    by (simp_all add: W2_def wc_def close_session_def Party_defaultParty_def alloc_party_def
          inCompile_def ctx2_def)
  from pass2 W2s(1) obtain r2 w3 where
    b2: "fapply f inst (take (length tys) ws) W2 = (Inr r2, w3)" by blast
  have c2: "call_method cls inst name ws W2 = (Inr r2, w3)"
    using b2 by (simp add: call_method_def wrapped wrapMethod_direct [OF W2s(1,2)])
  have m: "main X (call_method cls inst name) tys stmt W2
             = (Inr (), update_party (ctx_self ctx2) (cleanPreconditionsCache X) w3)"
    using main_supplied [OF W2s(3) _ len alloc, of "call_method cls inst name" stmt] c2
    by (simp add: ctx2_def)
  have pr: "call_prover ps i stmt W2
             = (Inr (Pickles_proof X name stmt),
                update_party (ctx_self ctx2) (cleanPreconditionsCache X) w3)"
    using handle m
    by (simp add: call_prover_def Pickles_prover_def picklesRuleFromFunction_def bindM_def returnM_def)
  have "prove X cls this name xs provers w
          = (Inr (Pickles_proof X name stmt, stmt, nextRef w),
             (update_party (ctx_self ctx2) (cleanPreconditionsCache X) w3)
               \<lparr>mainContext := mainContext (snd (Party_defaultParty addr2 wc))\<rparr>)"
    using c1 s1 pr
    unfolding W1_def W2_def ctx1_def ctx2_def wc_def stmt_def addr_def addr2_def
    by (simp add: prove_def resolved methods index bindM_def getsM_def liftS_def returnM_def
        withContext_def Let_def Party_defaultParty_def alloc_party_def
        createUnsignedTransaction_def setCurrentTransaction_def close_session_def
        Transaction_toJSON_def)
  then show ?thesis by blast
qed

lemma map_witnesses_positional:
  assumes "\<forall>i < length tys. js_index vs (k + i) = js_index vs' (k + i)"
  shows "map_witnesses X (Some vs) tys k = map_witnesses X (Some vs') tys k"
  using assms
proof (induction tys arbitrary: k)
  case Nil
  then show ?case by simp
next
  case (Cons t tys)
  have hd: "js_index vs k = js_index vs' k"
    using Cons.prems by fastforce
  have "\<forall>i < length tys. js_index vs (Suc k + i) = js_index vs' (Suc k + i)"
  proof (intro allI impI)
    fix i assume "i < length tys"
    then have "js_index vs (k + Suc i) = js_index vs' (k + Suc i)"
      using Cons.prems by (metis Suc_less_eq length_Cons)
    then show "js_index vs (Suc k + i) = js_index vs' (Suc k + i)" by simp
  qed
  from Cons.IH [OF this] hd show ?case by (simp split: sum.splits)
qed

lemma bump_body_returns:
  assumes "currentTransaction v = None"
  shows "\<exists>r v'. fapply bump_body t [JFields [a], JFields [b]] v = (Inr r, v')
               \<and> currentTransaction v' = None"
  using assms
  by (cases "mainContext v")
     (simp_all add: bump_body_def bindM_def liftS_def modifyM_def returnM_def self_def
        executionState_def selfParty_def alloc_party_def update_party_def)

text \<open>
  C4, amended. For a method registered with n witness-typed arguments no check compares
  the length of the supplied list with n. The allocation of the circuit body depends only
  on the n positional reads \<^verbatim>\<open>witnesses[i]\<close>, \<^verbatim>\<open>undefined\<close> past the end of the
  list: lists of any length that agree on those reads allocate alike, so values after the
  first n are ignored. Where the n allocations succeed, the circuit body's outcome is the
  method body's on the allocated values. Where the circuit body fails inside a context
  that supplies a list, its error is one that an allocation returned or one that the
  method body threw. And
  \<^verbatim>\<open>prove\<close>, called outside a session for a method installed through the dispatch
  wrapper and with the prover handle of the method's rule, succeeds on a supplied list of
  any length (in particular with exactly n values, and with more) whenever the n
  positional allocations succeed and the method body returns, leaving no session open,
  on the arguments the two passes give it.
\<close>

theorem no_witness_arity_check:
  "((\<forall>i < length tys. js_index vs i = js_index vs' i)
      \<longrightarrow> map_witnesses X (Some vs) tys 0 = map_witnesses X (Some vs') tys 0)
   \<and> (mainContext w = Some ctx \<and> ctx_witnesses ctx = Some vs \<and> length ws = length tys
        \<and> (\<forall>i < length tys. Circuit_witness X (tys ! i) (js_index vs i) = Inr (ws ! i))
      \<longrightarrow> main X func tys statement w =
           (case func ws w of
              (Inl e, w1) \<Rightarrow> (Inl e, w1)
            | (Inr r, w1) \<Rightarrow>
                (Inr (), update_party (ctx_self ctx) (cleanPreconditionsCache X) w1)))
   \<and> (mainContext w = Some ctx \<and> ctx_witnesses ctx = Some vs
        \<and> main X func tys statement w = (Inl e, w1)
      \<longrightarrow> (\<exists>i < length tys. Circuit_witness X (tys ! i) (js_index vs i) = Inl e)
           \<or> (\<exists>ws'. func ws' w = (Inl e, w1)))
   \<and> (currentTransaction u = None
        \<and> (case provers of None \<Rightarrow> static_provers cls | Some qs \<Rightarrow> Some qs) = Some ps
        \<and> static_methods cls = Some ms
        \<and> findIndex (\<lambda>m. methodName m = name) ms = Some k
        \<and> get_property cls name
             = Some (PFunction \<lparr>fname = fn, fapply = wrapMethod X f (length tys) cn\<rparr>)
        \<and> k < length ps
        \<and> ps ! k = Pickles_prover X
                      (picklesRuleFromFunction X name (call_method cls inst name) tys)
        \<and> length zs = length tys
        \<and> (\<forall>i < length tys. Circuit_witness X (tys ! i) (js_index ys i) = Inr (zs ! i))
        \<and> (\<forall>v. currentTransaction v = None \<longrightarrow>
              (\<exists>r v'. fapply f this (take (length tys) (ys @ [JBool True])) v = (Inr r, v')
                      \<and> currentTransaction v' = None))
        \<and> (\<forall>v. currentTransaction v = None \<longrightarrow>
              (\<exists>r v'. fapply f inst (take (length tys) zs) v = (Inr r, v')))
      \<longrightarrow> (\<exists>stmt u'. prove X cls this name ys provers u
                        = (Inr (Pickles_proof X name stmt, stmt, nextRef u), u')))"
proof (intro conjI impI)
  assume "\<forall>i < length tys. js_index vs i = js_index vs' i"
  then show "map_witnesses X (Some vs) tys 0 = map_witnesses X (Some vs') tys 0"
    using map_witnesses_positional [of tys vs 0 vs' X] by simp
next
  assume "mainContext w = Some ctx \<and> ctx_witnesses ctx = Some vs \<and> length ws = length tys
        \<and> (\<forall>i < length tys. Circuit_witness X (tys ! i) (js_index vs i) = Inr (ws ! i))"
  then show "main X func tys statement w =
           (case func ws w of
              (Inl e, w1) \<Rightarrow> (Inl e, w1)
            | (Inr r, w1) \<Rightarrow>
                (Inr (), update_party (ctx_self ctx) (cleanPreconditionsCache X) w1))"
    using main_supplied by blast
next
  assume "mainContext w = Some ctx \<and> ctx_witnesses ctx = Some vs
        \<and> main X func tys statement w = (Inl e, w1)"
  then show "(\<exists>i < length tys. Circuit_witness X (tys ! i) (js_index vs i) = Inl e)
           \<or> (\<exists>ws'. func ws' w = (Inl e, w1))"
    using main_failure by blast
next
  assume h: "currentTransaction u = None
        \<and> (case provers of None \<Rightarrow> static_provers cls | Some qs \<Rightarrow> Some qs) = Some ps
        \<and> static_methods cls = Some ms
        \<and> findIndex (\<lambda>m. methodName m = name) ms = Some k
        \<and> get_property cls name
             = Some (PFunction \<lparr>fname = fn, fapply = wrapMethod X f (length tys) cn\<rparr>)
        \<and> k < length ps
        \<and> ps ! k = Pickles_prover X
                      (picklesRuleFromFunction X name (call_method cls inst name) tys)
        \<and> length zs = length tys
        \<and> (\<forall>i < length tys. Circuit_witness X (tys ! i) (js_index ys i) = Inr (zs ! i))
        \<and> (\<forall>v. currentTransaction v = None \<longrightarrow>
              (\<exists>r v'. fapply f this (take (length tys) (ys @ [JBool True])) v = (Inr r, v')
                      \<and> currentTransaction v' = None))
        \<and> (\<forall>v. currentTransaction v = None \<longrightarrow>
              (\<exists>r v'. fapply f inst (take (length tys) zs) v = (Inr r, v')))"
  show "\<exists>stmt u'. prove X cls this name ys provers u
                        = (Inr (Pickles_proof X name stmt, stmt, nextRef u), u')"
    by (rule prove_any_length [where ps = ps and ms = ms and i = k and fn = fn and f = f
          and tys = tys and cn = cn and inst = inst and ws = zs])
       (use h in blast)+
qed


theorem no_witness_arity_check_witness:
  "map_witnesses externals0 (Some [JFields [5], JFields [6], JFields [9]]) [field_type, field_type] 0
     = map_witnesses externals0 (Some [JFields [5], JFields [6]]) [field_type, field_type] 0
   \<and> fst (main externals0 (call_method registered_class 0 ''bump'') [field_type, field_type]
            \<lparr>transaction = 1, atParty = 0\<rparr> two_witnesses_world)
       = Inr ()
   \<and> fst (main externals0 (call_method registered_class 0 ''bump'') [field_type, field_type]
            \<lparr>transaction = 1, atParty = 0\<rparr> one_witness_world)
       = Inl (Thrown ''bad arguments'')
   \<and> (\<exists>ws'. fst (call_method registered_class 0 ''bump'' ws' one_witness_world)
                = Inl (Thrown ''bad arguments''))
   \<and> currentTransaction world0 = None
   \<and> (\<exists>stmt u'. prove externals0 registered_class 0 ''bump'' [JFields [5], JFields [6]]
                     (Some provers0) world0
                   = (Inr (''bump'', stmt, 0), u'))
   \<and> (\<exists>stmt u'. prove externals0 registered_class 0 ''bump''
                     [JFields [5], JFields [6], JFields [9]] (Some provers0) world0
                   = (Inr (''bump'', stmt, 0), u'))"
proof -
  let ?tys = "[field_type, field_type]"
  let ?two = "[JFields [5], JFields [6]]"
  let ?three = "[JFields [5], JFields [6], JFields [9]]"
  let ?st = "\<lparr>transaction = 1, atParty = 0\<rparr>"
  let ?entry = "\<lparr>methodName = ''bump'', witnessArgs = [field_type, field_type], proofArgs = [],
                 args = [(''witness'', 0), (''witness'', 1)]\<rparr>"
  \<comment> \<open>the allocation reads positions only\<close>
  have pos: "\<forall>i < length ?tys. js_index ?three i = js_index ?two i"
    by (auto simp add: js_index_def less_Suc_eq)
  have a: "map_witnesses externals0 (Some ?three) ?tys 0 = map_witnesses externals0 (Some ?two) ?tys 0"
    using no_witness_arity_check [where tys = ?tys and vs = ?three and vs' = ?two
        and X = externals0, THEN conjunct1] pos by blast
  \<comment> \<open>the circuit body with two and with one supplied value\<close>
  let ?ctx2 = "\<lparr>ctx_self = 0, ctx_witnesses = Some ?two,
                ctx_inCompile = False, ctx_inProver = True\<rparr>"
  let ?ctx1 = "\<lparr>ctx_self = 0, ctx_witnesses = Some [JFields [5]],
                ctx_inCompile = False, ctx_inProver = True\<rparr>"
  have al2: "\<forall>i < length ?tys. Circuit_witness externals0 (?tys ! i) (js_index ?two i)
               = Inr (?two ! i)"
    by (auto simp add: externals0_def js_index_def less_Suc_eq)
  have al1: "\<forall>i < length ?tys. Circuit_witness externals0 (?tys ! i) (js_index [JFields [5]] i)
               = Inr ([JFields [5], JUndefined] ! i)"
    by (auto simp add: externals0_def js_index_def less_Suc_eq)
  have f2: "fst (call_method registered_class 0 ''bump'' ?two two_witnesses_world) = Inr JUndefined"
    by (simp add: call_method_def get_property_def registered_class_eq class0_def
          wrapMethod_def two_witnesses_world_def world0_def inCompile_def bump_body_def
          bindM_def liftS_def modifyM_def returnM_def self_def executionState_def Let_def)
  have f1: "fst (call_method registered_class 0 ''bump'' [JFields [5], JUndefined] one_witness_world)
              = Inl (Thrown ''bad arguments'')"
    by (simp add: call_method_def get_property_def registered_class_eq class0_def
          wrapMethod_def one_witness_world_def world0_def inCompile_def bump_body_def
          throwM_def Let_def)
  have b2: "fst (main externals0 (call_method registered_class 0 ''bump'') ?tys ?st
                   two_witnesses_world) = Inr ()"
  proof -
    have "mainContext two_witnesses_world = Some ?ctx2 \<and> ctx_witnesses ?ctx2 = Some ?two
        \<and> length ?two = length ?tys
        \<and> (\<forall>i < length ?tys. Circuit_witness externals0 (?tys ! i) (js_index ?two i)
               = Inr (?two ! i))"
      using al2 by (simp add: two_witnesses_world_def world0_def)
    from no_witness_arity_check [where w = two_witnesses_world and ctx = ?ctx2 and vs = ?two
        and ws = ?two and tys = ?tys and X = externals0 and statement = ?st
        and func = "call_method registered_class 0 ''bump''",
        THEN conjunct2, THEN conjunct1, THEN mp, OF this]
    show ?thesis using f2 by (simp split: prod.splits sum.splits)
  qed
  have b1: "fst (main externals0 (call_method registered_class 0 ''bump'') ?tys ?st
                   one_witness_world) = Inl (Thrown ''bad arguments'')"
  proof -
    have "mainContext one_witness_world = Some ?ctx1 \<and> ctx_witnesses ?ctx1 = Some [JFields [5]]
        \<and> length [JFields [5], JUndefined] = length ?tys
        \<and> (\<forall>i < length ?tys. Circuit_witness externals0 (?tys ! i) (js_index [JFields [5]] i)
               = Inr ([JFields [5], JUndefined] ! i))"
      using al1 by (simp add: one_witness_world_def world0_def)
    from no_witness_arity_check [where w = one_witness_world and ctx = ?ctx1
        and vs = "[JFields [5]]" and ws = "[JFields [5], JUndefined]" and tys = ?tys
        and X = externals0 and statement = ?st
        and func = "call_method registered_class 0 ''bump''",
        THEN conjunct2, THEN conjunct1, THEN mp, OF this]
    show ?thesis using f1 by (simp split: prod.splits sum.splits)
  qed
  \<comment> \<open>the failure with one supplied value is the method body's\<close>
  have d: "\<exists>ws'. fst (call_method registered_class 0 ''bump'' ws' one_witness_world)
              = Inl (Thrown ''bad arguments'')"
  proof -
    let ?m = "main externals0 (call_method registered_class 0 ''bump'') ?tys ?st one_witness_world"
    have "mainContext one_witness_world = Some ?ctx1 \<and> ctx_witnesses ?ctx1 = Some [JFields [5]]
        \<and> ?m = (Inl (Thrown ''bad arguments''), snd ?m)"
      using b1 by (simp add: one_witness_world_def world0_def prod_eq_iff)
    from no_witness_arity_check [where w = one_witness_world and ctx = ?ctx1
        and vs = "[JFields [5]]" and tys = ?tys and X = externals0 and statement = ?st
        and func = "call_method registered_class 0 ''bump''"
        and e = "Thrown ''bad arguments''" and ?w1.0 = "snd ?m",
        THEN conjunct2, THEN conjunct2, THEN conjunct1, THEN mp, OF this]
    have "(\<exists>i < length ?tys. Circuit_witness externals0 (?tys ! i) (js_index [JFields [5]] i)
               = Inl (Thrown ''bad arguments''))
        \<or> (\<exists>ws'. call_method registered_class 0 ''bump'' ws' one_witness_world
               = (Inl (Thrown ''bad arguments''), snd ?m))" .
    moreover have "\<not> (\<exists>i < length ?tys.
        Circuit_witness externals0 (?tys ! i) (js_index [JFields [5]] i)
          = Inl (Thrown ''bad arguments''))"
      by (simp add: externals0_def)
    ultimately obtain ws' where "call_method registered_class 0 ''bump'' ws' one_witness_world
               = (Inl (Thrown ''bad arguments''), snd ?m)" by blast
    then have "fst (call_method registered_class 0 ''bump'' ws' one_witness_world)
               = Inl (Thrown ''bad arguments'')" by simp
    then show ?thesis by blast
  qed
  \<comment> \<open>proving with two and with three supplied values\<close>
  have h0: "currentTransaction world0 = None" by (simp add: world0_def)
  have h1: "(case Some provers0 of None \<Rightarrow> static_provers registered_class | Some qs \<Rightarrow> Some qs)
              = Some provers0" by simp
  have h2: "static_methods registered_class = Some [?entry]"
    by (simp add: registered_class_eq class0_def)
  have h3: "findIndex (\<lambda>m. methodName m = ''bump'') [?entry] = Some 0" by simp
  have h4: "get_property registered_class ''bump''
              = Some (PFunction \<lparr>fname = ''wrappedMethod'',
                        fapply = wrapMethod externals0 bump_body (length ?tys) ''C''\<rparr>)"
    by (simp add: get_property_def registered_class_eq class0_def numeral_2_eq_2)
  have h5: "0 < length provers0" by (simp add: provers0_def)
  have h6: "provers0 ! 0 = Pickles_prover externals0
              (picklesRuleFromFunction externals0 ''bump'' (call_method registered_class 0 ''bump'') ?tys)"
    by (simp add: provers0_def)
  have h7: "length ?two = length ?tys" by simp
  have al3: "\<forall>i < length ?tys. Circuit_witness externals0 (?tys ! i) (js_index ?three i)
               = Inr (?two ! i)"
    by (auto simp add: externals0_def js_index_def less_Suc_eq)
  have p1: "\<forall>v. currentTransaction v = None \<longrightarrow>
              (\<exists>r v'. fapply bump_body 0 (take (length ?tys) (ys @ [JBool True])) v = (Inr r, v')
                      \<and> currentTransaction v' = None)"
    if "ys = ?two \<or> ys = ?three" for ys
    using that bump_body_returns [of _ 0 5 6] by auto
  have p2: "\<forall>v. currentTransaction v = None \<longrightarrow>
              (\<exists>r v'. fapply bump_body 0 (take (length ?tys) ?two) v = (Inr r, v'))"
    using bump_body_returns [of _ 0 5 6] by (simp, blast)
  have c: "\<exists>stmt u'. prove externals0 registered_class 0 ''bump'' ys (Some provers0) world0
                   = (Inr (''bump'', stmt, 0), u')"
    if ys: "ys = ?two \<or> ys = ?three" for ys
  proof -
    have al: "\<forall>i < length ?tys. Circuit_witness externals0 (?tys ! i) (js_index ys i)
               = Inr (?two ! i)"
      using ys al2 al3 by blast
    have "currentTransaction world0 = None
        \<and> (case Some provers0 of None \<Rightarrow> static_provers registered_class | Some qs \<Rightarrow> Some qs)
            = Some provers0
        \<and> static_methods registered_class = Some [?entry]
        \<and> findIndex (\<lambda>m. methodName m = ''bump'') [?entry] = Some 0
        \<and> get_property registered_class ''bump''
             = Some (PFunction \<lparr>fname = ''wrappedMethod'',
                       fapply = wrapMethod externals0 bump_body (length ?tys) ''C''\<rparr>)
        \<and> 0 < length provers0
        \<and> provers0 ! 0 = Pickles_prover externals0
              (picklesRuleFromFunction externals0 ''bump'' (call_method registered_class 0 ''bump'') ?tys)
        \<and> length ?two = length ?tys
        \<and> (\<forall>i < length ?tys. Circuit_witness externals0 (?tys ! i) (js_index ys i)
               = Inr (?two ! i))
        \<and> (\<forall>v. currentTransaction v = None \<longrightarrow>
              (\<exists>r v'. fapply bump_body 0 (take (length ?tys) (ys @ [JBool True])) v = (Inr r, v')
                      \<and> currentTransaction v' = None))
        \<and> (\<forall>v. currentTransaction v = None \<longrightarrow>
              (\<exists>r v'. fapply bump_body 0 (take (length ?tys) ?two) v = (Inr r, v')))"
      using h0 h1 h2 h3 h4 h5 h6 h7 al p1 [OF ys] p2 by blast
    from no_witness_arity_check [where u = world0 and provers = "Some provers0"
        and cls = registered_class and ps = provers0 and ms = "[?entry]" and name = "''bump''"
        and k = 0 and fn = "''wrappedMethod''" and f = bump_body and tys = ?tys and cn = "''C''"
        and inst = 0 and this = 0 and zs = ?two and ys = ys and X = externals0,
        THEN conjunct2, THEN conjunct2, THEN conjunct2, THEN mp, OF this]
    show ?thesis by (simp add: externals0_def world0_def)
  qed
  show ?thesis
    using a b2 b1 d h0 c [of ?two] c [of ?three] by simp
qed

text \<open>
  C4 as stated fails for the method \<^verbatim>\<open>bump\<close>, registered with two witness
  arguments. With three supplied values the circuit body passes, and so does
  \<^verbatim>\<open>prove\<close>, which returns the proof, the statement and the party of the first pass;
  with no supplied value the first pass calls the body with the flag \<^verbatim>\<open>true\<close> as its
  only argument, and the failure is the one the body then throws.
\<close>

theorem prove_arity_counterexample:
  "static_methods registered_class
       = Some [\<lparr>methodName = ''bump'', witnessArgs = [field_type, field_type], proofArgs = [],
                 args = [(''witness'', 0), (''witness'', 1)]\<rparr>]
   \<and> mainContext three_witnesses_world
       = Some \<lparr>ctx_self = 0, ctx_witnesses = Some [JFields [5], JFields [6], JFields [9]],
                ctx_inCompile = False, ctx_inProver = True\<rparr>
   \<and> fst (main externals0 (call_method registered_class 0 ''bump'') [field_type, field_type]
            \<lparr>transaction = 1, atParty = 0\<rparr> three_witnesses_world)
       = Inr ()
   \<and> fst (prove externals0 registered_class 0 ''bump'' [JFields [5], JFields [6], JFields [9]]
          (Some provers0) world0)
       = Inr (''bump'', \<lparr>transaction = 1, atParty = 0\<rparr>, 0)
   \<and> fst (prove externals0 registered_class 0 ''bump'' [] (Some provers0) world0)
       = Inl (Thrown ''bad arguments'')"
  by (simp add: prove_def registered_class_eq class0_def provers0_def world0_def
        three_witnesses_world_def
        bindM_def getsM_def liftS_def returnM_def throwM_def modifyM_def liftE_def
        Party_defaultParty_def alloc_party_def withContext_def call_method_def get_property_def
        wrapMethod_def js_index_def inCompile_def Let_def bump_body_def self_def executionState_def
        update_party_def createUnsignedTransaction_def setCurrentTransaction_def close_session_def
        Transaction_toJSON_def externals0_def call_prover_def Pickles_prover_def
        picklesRuleFromFunction_def main_def getContext_def assertEquals_def field_type_def)

section \<open>The deployed transaction\<close>



end
